theory Spec2Isabelle
  imports Complex_Main
begin

section \<open>The flat-file record store (src/utils/helpers.js)\<close>

text \<open>
  Every collection lives in one JSON file of the data directory. A file is modelled by
  what \<^verbatim>\<open>JSON.parse(fs.readFileSync(...))\<close> makes of it: \<open>Stored xs\<close> when the text
  parses to the array \<open>xs\<close> of records, \<open>Corrupt\<close> when reading or parsing throws.
  Writing passes the records through \<^verbatim>\<open>JSON.stringify\<close>, and the next read through
  \<^verbatim>\<open>JSON.parse\<close>; what a record reads back as after the two is the parameter \<open>reparse\<close>
  of \<open>writeData\<close>. For JSON values it is \<open>after_json\<close> below. For the product and
  order records of the routes, whose fields are strings, booleans, \<^verbatim>\<open>null\<close> and finite
  numbers, it is the identity.

  The disk state holds whether the data directory exists, the files in it, and whether
  \<^verbatim>\<open>fs.writeFileSync\<close> and \<^verbatim>\<open>fs.mkdirSync\<close> succeed (\<open>writable\<close>); when they throw,
  the \<^verbatim>\<open>catch\<close> blocks of the helpers decide the result.
\<close>

datatype 'r json_file = Corrupt | Stored "'r list"

record 'r disk =
  dir_exists :: bool
  files :: "string \<Rightarrow> 'r json_file option"
  writable :: bool

definition existsSync :: "'r disk \<Rightarrow> string \<Rightarrow> bool" where
  "existsSync d filename = (dir_exists d \<and> files d filename \<noteq> None)"

text \<open>
  \<^verbatim>\<open>readData(filename)\<close>: a missing file is created holding \<open>[]\<close> and \<open>[]\<close> is returned;
  when that creation throws (no directory, or the disk refuses the write) the \<^verbatim>\<open>catch\<close>
  returns \<open>[]\<close> and nothing is created. A file that cannot be read or parsed gives \<open>[]\<close>.
\<close>

definition readData :: "string \<Rightarrow> 'r disk \<Rightarrow> 'r list \<times> 'r disk" where
  "readData filename d =
     (if \<not> existsSync d filename then
        (if dir_exists d \<and> writable d
         then ([], d\<lparr>files := (files d)(filename \<mapsto> Stored [])\<rparr>)
         else ([], d))
      else
        (case files d filename of
           Some (Stored xs) \<Rightarrow> (xs, d)
         | _ \<Rightarrow> ([], d)))"

text \<open>
  \<^verbatim>\<open>writeData(filename, data)\<close>: creates the data directory when it is missing, replaces
  the whole file by \<^verbatim>\<open>JSON.stringify(data, null, 2)\<close> and returns \<open>True\<close>; returns
  \<open>False\<close> when the disk throws.
\<close>

definition writeData ::
  "('r \<Rightarrow> 'r) \<Rightarrow> string \<Rightarrow> 'r list \<Rightarrow> 'r disk \<Rightarrow> bool \<times> 'r disk"
where
  "writeData reparse filename xs d =
     (if \<not> writable d then (False, d)
      else
        (let d1 = (if \<not> dir_exists d
                   then d\<lparr>dir_exists := True, files := (\<lambda>_. None)\<rparr>
                   else d)
         in (True, d1\<lparr>files := (files d1)(filename \<mapsto> Stored (map reparse xs))\<rparr>)))"

text \<open>The collection a load sees, and the store after writing back an unmodified read.\<close>

definition load :: "string \<Rightarrow> 'r disk \<Rightarrow> 'r list" where
  "load filename d = fst (readData filename d)"

definition save_load :: "('r \<Rightarrow> 'r) \<Rightarrow> string \<Rightarrow> 'r disk \<Rightarrow> 'r disk" where
  "save_load reparse filename d =
     (let (xs, d1) = readData filename d in snd (writeData reparse filename xs d1))"

section \<open>JavaScript values used by the routes\<close>

subsection \<open>Truthiness\<close>

text \<open>
  A request field that is absent is \<open>None\<close>. Truthiness follows JavaScript: an absent
  field, the empty string and the number \<open>0\<close> are falsy.

  Request fields and stored records carry values of the JSON type the routes expect
  (strings, numbers, booleans, arrays of items). On such values no modelled path throws,
  so the \<^verbatim>\<open>catch\<close> blocks of the routes (status 500) are not reached.
\<close>

definition truthy_str :: "string option \<Rightarrow> bool" where
  "truthy_str s = (case s of None \<Rightarrow> False | Some t \<Rightarrow> t \<noteq> [])"

definition truthy_num :: "rat option \<Rightarrow> bool" where
  "truthy_num n = (case n of None \<Rightarrow> False | Some x \<Rightarrow> x \<noteq> 0)"

text \<open>\<^verbatim>\<open>x <= 0\<close>: false on \<^verbatim>\<open>undefined\<close>.\<close>

definition le_zero :: "rat option \<Rightarrow> bool" where
  "le_zero n = (case n of None \<Rightarrow> False | Some x \<Rightarrow> x \<le> 0)"

definition str :: "string option \<Rightarrow> string" where
  "str s = (case s of None \<Rightarrow> [] | Some t \<Rightarrow> t)"

definition num :: "rat option \<Rightarrow> rat" where
  "num n = (case n of None \<Rightarrow> 0 | Some x \<Rightarrow> x)"

subsection \<open>Numbers\<close>

text \<open>
  A JavaScript number is an IEEE 754 double. A finite double is a rational, and an amount
  of the data model (price, quantity, total) is kept as the rational value of its double.
  Every arithmetic operation of JavaScript gives the double nearest to the exact result,
  ties going to the even mantissa: \<open>round_double\<close>, with 53 bits of mantissa above the
  exponent \<open>-1022\<close> and the fixed step \<open>2^-1074\<close> below it.
\<close>

function bit_length :: "int \<Rightarrow> nat" where
  "bit_length i = (if i \<le> 0 then 0 else Suc (bit_length (i div 2)))"
  by pat_completeness auto
termination
  by (relation "measure nat") auto

definition pow2 :: "int \<Rightarrow> rat" where
  "pow2 k = (if 0 \<le> k then 2 ^ nat k else 1 / 2 ^ nat (- k))"

text \<open>The binary exponent of a non-zero rational: \<open>2^e \<le> |x| < 2^(e+1)\<close>.\<close>

definition exponent :: "rat \<Rightarrow> int" where
  "exponent x =
     (let (a, b) = quotient_of \<bar>x\<bar>;
          k = int (bit_length a) - int (bit_length b)
      in if pow2 k \<le> \<bar>x\<bar> then k else k - 1)"

definition round_half_even :: "rat \<Rightarrow> int" where
  "round_half_even r =
     (let f = \<lfloor>r\<rfloor>; d = r - of_int f
      in if d < 1 / 2 then f else if 1 / 2 < d then f + 1 else if even f then f else f + 1)"

definition round_double :: "rat \<Rightarrow> rat" where
  "round_double x =
     (if x = 0 then 0
      else
        (let e = max (exponent x) (- 1022);
             q = pow2 (e - 52)
         in sgn x * of_int (round_half_even (\<bar>x\<bar> / q)) * q))"

text \<open>
  The arithmetic on amounts (\<^verbatim>\<open>*\<close>, \<^verbatim>\<open>+\<close>, \<^verbatim>\<open>-\<close>): the operands are read as doubles, which
  changes nothing when they are doubles already, and the result is rounded. \<open>cent\<close> is the
  double that the literal \<^verbatim>\<open>0.01\<close> denotes. A result of magnitude \<open>2^1024\<close> or more (binary
  exponent \<open>1024\<close> or more) stands for an overflow, where JavaScript gives \<open>Infinity\<close>;
  \<open>in_range\<close> excludes it.
\<close>

definition fl_mul :: "rat \<Rightarrow> rat \<Rightarrow> rat" where
  "fl_mul a b = round_double (round_double a * round_double b)"

definition fl_add :: "rat \<Rightarrow> rat \<Rightarrow> rat" where
  "fl_add a b = round_double (round_double a + round_double b)"

definition fl_sub :: "rat \<Rightarrow> rat \<Rightarrow> rat" where
  "fl_sub a b = round_double (round_double a - round_double b)"

definition cent :: rat where
  "cent = round_double (1 / 100)"

definition in_range :: "rat \<Rightarrow> bool" where
  "in_range x = (x = 0 \<or> exponent x < 1024)"

definition is_double :: "rat \<Rightarrow> bool" where
  "is_double x = (round_double x = x \<and> in_range x)"

text \<open>
  The numbers of the query arithmetic, where \<open>NaN\<close>, the infinities and the negative zero
  occur: \<open>Fin r\<close> is the finite double of value \<open>r\<close>, and \<open>Fin 0\<close> is the positive zero.
  \<open>to_number\<close> is the double for an exact result \<open>x\<close>: it overflows to an infinity, and
  a negative result that rounds to zero is the negative zero.
\<close>

datatype jsnum = NaN | Infinity | NegInfinity | NegZero | Fin rat

definition to_number :: "rat \<Rightarrow> jsnum" where
  "to_number x =
     (let y = round_double x
      in if \<not> in_range y then (if 0 < y then Infinity else NegInfinity)
         else if y = 0 \<and> x < 0 then NegZero
         else Fin y)"

definition is_nan :: "jsnum \<Rightarrow> bool" where
  "is_nan a = (a = NaN)"

definition is_inf :: "jsnum \<Rightarrow> bool" where
  "is_inf a = (a = Infinity \<or> a = NegInfinity)"

definition is_zero :: "jsnum \<Rightarrow> bool" where
  "is_zero a = (a = Fin 0 \<or> a = NegZero)"

fun negative :: "jsnum \<Rightarrow> bool" where
  "negative NegInfinity = True"
| "negative NegZero = True"
| "negative (Fin r) = (r < 0)"
| "negative _ = False"

fun val :: "jsnum \<Rightarrow> rat" where
  "val (Fin r) = r"
| "val _ = 0"

definition signed :: "bool \<Rightarrow> jsnum \<Rightarrow> jsnum \<Rightarrow> jsnum" where
  "signed neg lo hi = (if neg then lo else hi)"

fun js_neg :: "jsnum \<Rightarrow> jsnum" where
  "js_neg NaN = NaN"
| "js_neg Infinity = NegInfinity"
| "js_neg NegInfinity = Infinity"
| "js_neg NegZero = Fin 0"
| "js_neg (Fin r) = (if r = 0 then NegZero else Fin (- r))"

text \<open>
  \<^verbatim>\<open>a + b\<close>, \<^verbatim>\<open>a - b\<close>, \<^verbatim>\<open>a * b\<close> and \<^verbatim>\<open>a / b\<close> with the special cases of IEEE 754:
  \<open>NaN\<close> propagates; \<open>Infinity - Infinity\<close>, \<open>Infinity * 0\<close>, \<open>0 / 0\<close> and
  \<open>Infinity / Infinity\<close> are \<open>NaN\<close>; a division by a zero is an infinity; the sign of a
  zero or infinite product or quotient is the product of the signs.
\<close>

definition js_add :: "jsnum \<Rightarrow> jsnum \<Rightarrow> jsnum" where
  "js_add a b =
     (if is_nan a \<or> is_nan b then NaN
      else if is_inf a \<and> is_inf b then (if a = b then a else NaN)
      else if is_inf a then a
      else if is_inf b then b
      else if a = NegZero \<and> b = NegZero then NegZero
      else to_number (val a + val b))"

definition js_sub :: "jsnum \<Rightarrow> jsnum \<Rightarrow> jsnum" where
  "js_sub a b = js_add a (js_neg b)"

definition js_mul :: "jsnum \<Rightarrow> jsnum \<Rightarrow> jsnum" where
  "js_mul a b =
     (if is_nan a \<or> is_nan b then NaN
      else if (is_inf a \<and> is_zero b) \<or> (is_zero a \<and> is_inf b) then NaN
      else if is_inf a \<or> is_inf b then signed (negative a \<noteq> negative b) NegInfinity Infinity
      else if is_zero a \<or> is_zero b then signed (negative a \<noteq> negative b) NegZero (Fin 0)
      else to_number (val a * val b))"

definition js_div :: "jsnum \<Rightarrow> jsnum \<Rightarrow> jsnum" where
  "js_div a b =
     (if is_nan a \<or> is_nan b then NaN
      else if (is_inf a \<and> is_inf b) \<or> (is_zero a \<and> is_zero b) then NaN
      else if is_inf a \<or> is_zero b then signed (negative a \<noteq> negative b) NegInfinity Infinity
      else if is_inf b \<or> is_zero a then signed (negative a \<noteq> negative b) NegZero (Fin 0)
      else to_number (val a / val b))"

text \<open>\<^verbatim>\<open>Math.ceil\<close>: a value in \<open>(-1, 0)\<close> goes to the negative zero.\<close>

fun js_ceil :: "jsnum \<Rightarrow> jsnum" where
  "js_ceil (Fin r) = (if \<lceil>r\<rceil> = 0 \<and> r < 0 then NegZero else Fin (of_int \<lceil>r\<rceil>))"
| "js_ceil a = a"

text \<open>\<^verbatim>\<open>a === b\<close> on numbers: \<open>NaN\<close> equals nothing, the two zeros are equal.\<close>

definition strict_eq :: "jsnum \<Rightarrow> jsnum \<Rightarrow> bool" where
  "strict_eq a b = (\<not> is_nan a \<and> \<not> is_nan b \<and> ((is_zero a \<and> is_zero b) \<or> a = b))"

text \<open>
  \<^verbatim>\<open>parseInt\<close> of a query or path parameter: leading white space is skipped, a sign is
  read, a \<^verbatim>\<open>0x\<close> prefix selects radix 16, the longest prefix of digits is the value, and no
  digit at all gives \<open>NaN\<close>. The value is the double nearest to the integer read (an
  infinity beyond the range of doubles), and \<^verbatim>\<open>-0\<close> reads as the negative zero.
\<close>

definition isWhiteSpace :: "char \<Rightarrow> bool" where
  "isWhiteSpace c = (of_char c \<in> {9, 10, 11, 12, 13, 32 :: nat})"

definition digit_of :: "char \<Rightarrow> nat option" where
  "digit_of c =
     (let n = (of_char c :: nat) in
      if 48 \<le> n \<and> n \<le> 57 then Some (n - 48)
      else if 97 \<le> n \<and> n \<le> 122 then Some (n - 87)
      else if 65 \<le> n \<and> n \<le> 90 then Some (n - 55)
      else None)"

definition radix_digit :: "nat \<Rightarrow> char \<Rightarrow> bool" where
  "radix_digit R c = (case digit_of c of None \<Rightarrow> False | Some v \<Rightarrow> v < R)"

definition digit_val :: "char \<Rightarrow> nat" where
  "digit_val c = (case digit_of c of None \<Rightarrow> 0 | Some v \<Rightarrow> v)"

definition parseInt :: "string \<Rightarrow> jsnum" where
  "parseInt s =
     (let S = dropWhile isWhiteSpace s;
          sign = (if take 1 S = ''-'' then - 1 else (1 :: int));
          S1 = (if take 1 S = ''+'' \<or> take 1 S = ''-'' then drop 1 S else S);
          hex = (take 2 S1 = ''0x'' \<or> take 2 S1 = ''0X'');
          R = (if hex then 16 else 10);
          S2 = (if hex then drop 2 S1 else S1);
          Z = takeWhile (radix_digit R) S2;
          mathInt = foldl (\<lambda>a c. a * int R + int (digit_val c)) 0 Z
      in if Z = [] then NaN
         else if mathInt = 0 then (if sign < 0 then NegZero else Fin 0)
         else to_number (of_int (sign * mathInt)))"

text \<open>
  \<^verbatim>\<open>Array.prototype.slice(start, end)\<close>: an index is made an integer (\<open>NaN\<close> and the
  zeros count as \<open>0\<close>, a fraction is cut off), a negative index counts from the end, and
  the result is clamped to the array.
\<close>

definition to_integer :: "rat \<Rightarrow> int" where
  "to_integer r = (if 0 \<le> r then \<lfloor>r\<rfloor> else \<lceil>r\<rceil>)"

definition relative_index :: "nat \<Rightarrow> jsnum \<Rightarrow> nat" where
  "relative_index len x =
     (case x of
        NaN \<Rightarrow> 0
      | Infinity \<Rightarrow> len
      | NegInfinity \<Rightarrow> 0
      | NegZero \<Rightarrow> 0
      | Fin r \<Rightarrow>
          if to_integer r < 0 then nat (max (int len + to_integer r) 0)
          else nat (min (to_integer r) (int len)))"

definition slice :: "'a list \<Rightarrow> jsnum \<Rightarrow> jsnum \<Rightarrow> 'a list" where
  "slice xs start fin =
     (let k = relative_index (length xs) start;
          final = relative_index (length xs) fin
      in take (final - k) (drop k xs))"

subsection \<open>JSON values\<close>

text \<open>
  The values \<^verbatim>\<open>JSON.parse\<close> builds. \<open>after_json v\<close> is what \<open>v\<close> reads back as after
  \<^verbatim>\<open>JSON.stringify\<close> and \<^verbatim>\<open>JSON.parse\<close>: \<open>NaN\<close> and the infinities are printed as
  \<^verbatim>\<open>null\<close>, the negative zero is printed as \<^verbatim>\<open>0\<close>, a finite double is printed by digits
  that read back as the same double, and arrays and objects keep their shape.
\<close>

datatype jsval =
    VNull
  | VBool bool
  | VNum jsnum
  | VStr string
  | VArr "jsval list"
  | VObj "(string \<times> jsval) list"

primrec after_json :: "jsval \<Rightarrow> jsval" where
  "after_json VNull = VNull"
| "after_json (VBool b) = VBool b"
| "after_json (VNum n) =
     (case n of
        Fin r \<Rightarrow> VNum (Fin r)
      | NegZero \<Rightarrow> VNum (Fin 0)
      | _ \<Rightarrow> VNull)"
| "after_json (VStr s) = VStr s"
| "after_json (VArr vs) = VArr (map after_json vs)"
| "after_json (VObj kvs) = VObj (map (map_prod (\<lambda>k. k) after_json) kvs)"

text \<open>A value all of whose numbers are finite doubles other than the negative zero.\<close>

primrec plain_numbers :: "jsval \<Rightarrow> bool" where
  "plain_numbers VNull = True"
| "plain_numbers (VBool b) = True"
| "plain_numbers (VNum n) = (case n of Fin r \<Rightarrow> True | _ \<Rightarrow> False)"
| "plain_numbers (VStr s) = True"
| "plain_numbers (VArr vs) = list_all (\<lambda>b. b) (map plain_numbers vs)"
| "plain_numbers (VObj kvs) = list_all (\<lambda>kb. snd kb) (map (map_prod (\<lambda>k. k) plain_numbers) kvs)"

subsection \<open>Strings and arrays\<close>

text \<open>\<^verbatim>\<open>String.prototype.toLowerCase\<close> on the ASCII letters; other characters are kept.\<close>

definition lower_char :: "char \<Rightarrow> char" where
  "lower_char c =
     (let n = (of_char c :: nat) in if 65 \<le> n \<and> n \<le> 90 then char_of (n + 32) else c)"

definition toLowerCase :: "string \<Rightarrow> string" where
  "toLowerCase s = map lower_char s"

text \<open>\<^verbatim>\<open>String.prototype.includes\<close>: the second string occurs in the first.\<close>

fun includes_str :: "string \<Rightarrow> string \<Rightarrow> bool" where
  "includes_str [] t = (t = [])"
| "includes_str (c # cs) t = (take (length t) (c # cs) = t \<or> includes_str cs t)"

text \<open>\<^verbatim>\<open>Array.prototype.findIndex\<close>; \<open>None\<close> stands for \<open>-1\<close>.\<close>

fun findIndex :: "('a \<Rightarrow> bool) \<Rightarrow> 'a list \<Rightarrow> nat option" where
  "findIndex P [] = None"
| "findIndex P (x # xs) =
     (if P x then Some 0 else (case findIndex P xs of None \<Rightarrow> None | Some i \<Rightarrow> Some (Suc i)))"

section \<open>Data model\<close>

text \<open>
  Identifiers are \<^verbatim>\<open>Date.now()\<close> readings (milliseconds, a natural number). A time stamp
  \<^verbatim>\<open>new Date().toISOString()\<close> is kept as the clock reading it prints. The order number
  \<^verbatim>\<open>ORD-<reading>\<close> is kept as its reading. Amounts (price, quantity, subtotal, total)
  are finite doubles, kept as the rationals they are.
\<close>

record product =
  p_id :: nat
  p_name :: string
  p_price :: rat
  p_category :: string
  p_description :: string
  p_image :: string
  p_featured :: bool
  p_createdAt :: nat
  p_updatedAt :: nat

record line_item =
  li_id :: nat
  li_name :: string
  li_price :: rat
  li_quantity :: rat
  li_subtotal :: rat

record customer_info =
  ci_email :: string
  ci_firstName :: string
  ci_lastName :: string
  ci_address :: string
  ci_city :: string
  ci_zipCode :: string

record order =
  o_id :: nat
  o_orderNumber :: nat
  o_userId :: "nat option"
  o_customerInfo :: customer_info
  o_items :: "line_item list"
  o_total :: rat
  o_paymentMethod :: string
  o_status :: string
  o_paymentStatus :: string
  o_createdAt :: nat
  o_updatedAt :: nat

text \<open>The two collections of the data directory, each with its record type.\<close>

record world =
  products_disk :: "product disk"
  orders_disk :: "order disk"

text \<open>The identity the authentication middleware attaches to a request (\<^verbatim>\<open>req.user\<close>).\<close>

record caller =
  userId :: nat
  role :: string

text \<open>
  Results of a route. The source answers with an HTTP status and a message; the
  constructors name the failures as the specification does:
  \<^item> \<open>ValidationError m\<close>: status 400 with message \<open>m\<close>;
  \<^item> \<open>UnknownProductError i\<close>: 400, \<^verbatim>\<open>Product with ID <i> not found\<close>;
  \<^item> \<open>InvalidQuantityError n\<close>: 400, \<^verbatim>\<open>Invalid quantity for product: <n>\<close>;
  \<^item> \<open>TotalMismatchError calculated provided\<close>: 400, \<^verbatim>\<open>Order total mismatch\<close>;
  \<^item> \<open>DuplicateNameError\<close>: 400, \<^verbatim>\<open>Product with this name already exists\<close>;
  \<^item> \<open>ForbiddenError\<close>: 403; \<open>NotFoundError\<close>: 404.
\<close>

datatype error =
    ValidationError string
  | UnknownProductError nat
  | InvalidQuantityError string
  | TotalMismatchError rat rat
  | DuplicateNameError
  | ForbiddenError
  | NotFoundError

section \<open>Order routes (src/unnamed/part 000)\<close>

subsection \<open>Creating an order\<close>

record req_item =
  ri_id :: nat
  ri_quantity :: "rat option"

record order_body =
  b_email :: "string option"
  b_firstName :: "string option"
  b_lastName :: "string option"
  b_address :: "string option"
  b_city :: "string option"
  b_zipCode :: "string option"
  b_paymentMethod :: "string option"
  b_items :: "req_item list option"
  b_total :: "rat option"
  b_userId :: "nat option"

text \<open>
  The loop over the requested items (lines 40-60): the running total and the validated
  items are the accumulators, the first item that fails ends the request.
\<close>

fun validate_items ::
  "product list \<Rightarrow> req_item list \<Rightarrow> rat \<Rightarrow> line_item list \<Rightarrow> error + (rat \<times> line_item list)"
where
  "validate_items products [] calculatedTotal validatedItems =
     Inr (calculatedTotal, validatedItems)"
| "validate_items products (item # rest) calculatedTotal validatedItems =
     (case find (\<lambda>p. p_id p = ri_id item) products of
        None \<Rightarrow> Inl (UnknownProductError (ri_id item))
      | Some product \<Rightarrow>
          if \<not> truthy_num (ri_quantity item) \<or> le_zero (ri_quantity item)
          then Inl (InvalidQuantityError (p_name product))
          else
            (let itemTotal = fl_mul (p_price product) (num (ri_quantity item))
             in validate_items products rest (fl_add calculatedTotal itemTotal)
                  (validatedItems @
                     [\<lparr>li_id = p_id product, li_name = p_name product,
                       li_price = p_price product, li_quantity = num (ri_quantity item),
                       li_subtotal = itemTotal\<rparr>])))"

definition billing_present :: "order_body \<Rightarrow> bool" where
  "billing_present body =
     (truthy_str (b_email body) \<and> truthy_str (b_firstName body) \<and>
      truthy_str (b_lastName body) \<and> truthy_str (b_address body) \<and>
      truthy_str (b_city body) \<and> truthy_str (b_zipCode body) \<and>
      truthy_str (b_paymentMethod body))"

definition items_of :: "order_body \<Rightarrow> req_item list" where
  "items_of body = (case b_items body of None \<Rightarrow> [] | Some its \<Rightarrow> its)"

text \<open>\<^verbatim>\<open>userId || null\<close>: an absent or zero user id is stored as \<^verbatim>\<open>null\<close>.\<close>

definition or_null :: "nat option \<Rightarrow> nat option" where
  "or_null u = (case u of None \<Rightarrow> None | Some n \<Rightarrow> if n = 0 then None else Some n)"

text \<open>
  \<^verbatim>\<open>POST /\<close>. The four clock readings are those of lines 74, 75, 90 and 91, in that
  order. The product, the running sum and the difference of line 63 are double
  arithmetic, and line 63 compares with the double \<^verbatim>\<open>0.01\<close>. The result of \<^verbatim>\<open>writeData\<close>
  is not looked at by the route.
\<close>

definition create_order ::
  "order_body \<Rightarrow> nat \<Rightarrow> nat \<Rightarrow> nat \<Rightarrow> nat \<Rightarrow> world \<Rightarrow> (error + order) \<times> world"
where
  "create_order body now_id now_number now_created now_updated w =
     (if \<not> billing_present body
      then (Inl (ValidationError ''All billing information fields are required''), w)
      else if items_of body = []
      then (Inl (ValidationError ''Order must contain at least one item''), w)
      else if \<not> truthy_num (b_total body) \<or> le_zero (b_total body)
      then (Inl (ValidationError ''Invalid order total''), w)
      else
        (let (products, pd) = readData ''products'' (products_disk w);
             w1 = w\<lparr>products_disk := pd\<rparr>;
             total = num (b_total body)
         in case validate_items products (items_of body) 0 [] of
              Inl e \<Rightarrow> (Inl e, w1)
            | Inr (calculatedTotal, validatedItems) \<Rightarrow>
                if \<bar>fl_sub calculatedTotal total\<bar> > cent
                then (Inl (TotalMismatchError calculatedTotal total), w1)
                else
                  (let (orders, od) = readData ''orders'' (orders_disk w1);
                       newOrder =
                         \<lparr>o_id = now_id,
                          o_orderNumber = now_number,
                          o_userId = or_null (b_userId body),
                          o_customerInfo =
                            \<lparr>ci_email = str (b_email body),
                             ci_firstName = str (b_firstName body),
                             ci_lastName = str (b_lastName body),
                             ci_address = str (b_address body),
                             ci_city = str (b_city body),
                             ci_zipCode = str (b_zipCode body)\<rparr>,
                          o_items = validatedItems,
                          o_total = calculatedTotal,
                          o_paymentMethod = str (b_paymentMethod body),
                          o_status = ''completed'',
                          o_paymentStatus = ''paid'',
                          o_createdAt = now_created,
                          o_updatedAt = now_updated\<rparr>;
                       (ok, od1) = writeData (\<lambda>r. r) ''orders'' (orders @ [newOrder]) od
                   in (Inr newOrder, w1\<lparr>orders_disk := od1\<rparr>))))"

subsection \<open>Listing orders\<close>

record 'r page_env =
  pg_items :: "'r list"
  pg_total :: nat
  pg_page :: jsnum
  pg_pageSize :: jsnum
  pg_totalPages :: jsnum

text \<open>
  The pagination block, the same in the three list routes (orders lines 133-145 and
  165-177, products lines 29-41), from the page text and the page size.
\<close>

definition paginate :: "'r list \<Rightarrow> string \<Rightarrow> jsnum \<Rightarrow> 'r page_env" where
  "paginate xs page_text pageSize =
     (let startIndex = js_mul (js_sub (parseInt page_text) (Fin 1)) pageSize;
          endIndex = js_add startIndex pageSize
      in \<lparr>pg_items = slice xs startIndex endIndex,
          pg_total = length xs,
          pg_page = parseInt page_text,
          pg_pageSize = pageSize,
          pg_totalPages = js_ceil (js_div (Fin (of_nat (length xs))) pageSize)\<rparr>)"

text \<open>A query parameter with its default: \<^verbatim>\<open>{ page = 1, limit = 10 } = req.query\<close>.\<close>

definition param_or :: "string \<Rightarrow> string option \<Rightarrow> string" where
  "param_or dflt q = (case q of None \<Rightarrow> dflt | Some t \<Rightarrow> t)"

text \<open>
  \<^verbatim>\<open>sort((a, b) => new Date(b.createdAt) - new Date(a.createdAt))\<close>: newest first; the
  sort is stable.
\<close>

definition newest_first :: "order list \<Rightarrow> order list" where
  "newest_first xs = sort_key (\<lambda>ord. - int (o_createdAt ord)) xs"

text \<open>\<^verbatim>\<open>GET /\<close> (admin only).\<close>

definition list_orders ::
  "caller \<Rightarrow> string option \<Rightarrow> string option \<Rightarrow> string option \<Rightarrow> order disk
     \<Rightarrow> (error + order page_env) \<times> order disk"
where
  "list_orders c status page_q limit_q od =
     (if role c \<noteq> ''admin'' then (Inl ForbiddenError, od)
      else
        (let (orders, od1) = readData ''orders'' od;
             orders1 = (if truthy_str status
                        then filter (\<lambda>ord. o_status ord = str status) orders
                        else orders);
             orders2 = newest_first orders1
         in (Inr (paginate orders2 (param_or ''1'' page_q) (parseInt (param_or ''10'' limit_q))),
             od1)))"

text \<open>\<^verbatim>\<open>GET /my-orders\<close>.\<close>

definition my_orders ::
  "caller \<Rightarrow> string option \<Rightarrow> string option \<Rightarrow> order disk
     \<Rightarrow> (error + order page_env) \<times> order disk"
where
  "my_orders c page_q limit_q od =
     (let (orders, od1) = readData ''orders'' od;
          userOrders = filter (\<lambda>ord. o_userId ord = Some (userId c)) orders;
          userOrders1 = newest_first userOrders
      in (Inr (paginate userOrders1 (param_or ''1'' page_q) (parseInt (param_or ''10'' limit_q))),
          od1))"

subsection \<open>Order statistics\<close>




section \<open>Product routes (src/routes/products.js)\<close>

record product_body =
  pb_name :: "string option"
  pb_price :: "rat option"
  pb_category :: "string option"
  pb_description :: "string option"
  pb_image :: "string option"
  pb_featured :: "bool option"

text \<open>\<^verbatim>\<open>GET /\<close>: filter by category, search, paginate; no limit means one page of all.\<close>

definition list_products ::
  "string option \<Rightarrow> string option \<Rightarrow> string option \<Rightarrow> string option \<Rightarrow> product disk
     \<Rightarrow> product page_env \<times> product disk"
where
  "list_products category search limit_q page_q pd =
     (let (products, pd1) = readData ''products'' pd;
          products1 =
            (if truthy_str category \<and> str category \<noteq> ''All''
             then filter (\<lambda>product. toLowerCase (p_category product) = toLowerCase (str category))
                    products
             else products);
          products2 =
            (if truthy_str search
             then (let searchTerm = toLowerCase (str search)
                   in filter (\<lambda>product.
                        includes_str (toLowerCase (p_name product)) searchTerm \<or>
                        includes_str (toLowerCase (p_description product)) searchTerm \<or>
                        includes_str (toLowerCase (p_category product)) searchTerm) products1)
             else products1);
          pageSize = (if truthy_str limit_q then parseInt (str limit_q)
                      else Fin (of_nat (length products2)))
      in (paginate products2 (param_or ''1'' page_q) pageSize, pd1))"

text \<open>
  \<^verbatim>\<open>POST /\<close> (admin only). The three clock readings are those of lines 136, 143 and 144.
  \<^verbatim>\<open>parseFloat\<close> of a number is that number.
\<close>

definition create_product ::
  "caller \<Rightarrow> product_body \<Rightarrow> nat \<Rightarrow> nat \<Rightarrow> nat \<Rightarrow> product disk
     \<Rightarrow> (error + product) \<times> product disk"
where
  "create_product c body now_id now_created now_updated pd =
     (if role c \<noteq> ''admin'' then (Inl ForbiddenError, pd)
      else if \<not> truthy_str (pb_name body) \<or> \<not> truthy_num (pb_price body) \<or>
              \<not> truthy_str (pb_category body) \<or> \<not> truthy_str (pb_description body)
      then (Inl (ValidationError ''Name, price, category, and description are required''), pd)
      else if le_zero (pb_price body)
      then (Inl (ValidationError ''Price must be greater than 0''), pd)
      else
        (let (products, pd1) = readData ''products'' pd;
             name = str (pb_name body)
         in case find (\<lambda>p. toLowerCase (p_name p) = toLowerCase name) products of
              Some existingProduct \<Rightarrow> (Inl DuplicateNameError, pd1)
            | None \<Rightarrow>
                (let newProduct =
                       \<lparr>p_id = now_id,
                        p_name = name,
                        p_price = num (pb_price body),
                        p_category = str (pb_category body),
                        p_description = str (pb_description body),
                        p_image = (if truthy_str (pb_image body) then str (pb_image body)
                                   else ''/api/placeholder/300/200''),
                        p_featured = (case pb_featured body of None \<Rightarrow> False | Some f \<Rightarrow> f),
                        p_createdAt = now_created,
                        p_updatedAt = now_updated\<rparr>;
                     (ok, pd2) = writeData (\<lambda>r. r) ''products'' (products @ [newProduct]) pd1
                 in (Inr newProduct, pd2))))"

text \<open>The field assignments of an update (lines 196-203), in the order of the source.\<close>

definition apply_update :: "product_body \<Rightarrow> nat \<Rightarrow> product \<Rightarrow> product" where
  "apply_update body now p =
     (let p1 = (if truthy_str (pb_name body) then p\<lparr>p_name := str (pb_name body)\<rparr> else p);
          p2 = (if truthy_num (pb_price body) then p1\<lparr>p_price := num (pb_price body)\<rparr> else p1);
          p3 = (if truthy_str (pb_category body)
                then p2\<lparr>p_category := str (pb_category body)\<rparr> else p2);
          p4 = (if truthy_str (pb_description body)
                then p3\<lparr>p_description := str (pb_description body)\<rparr> else p3);
          p5 = (if truthy_str (pb_image body) then p4\<lparr>p_image := str (pb_image body)\<rparr> else p4);
          p6 = (case pb_featured body of None \<Rightarrow> p5 | Some f \<Rightarrow> p5\<lparr>p_featured := f\<rparr>)
      in p6\<lparr>p_updatedAt := now\<rparr>)"

text \<open>\<^verbatim>\<open>p.id === productId\<close>, the id of the path as \<^verbatim>\<open>parseInt\<close> read it.\<close>

definition has_id :: "jsnum \<Rightarrow> product \<Rightarrow> bool" where
  "has_id productId p = strict_eq (Fin (of_nat (p_id p))) productId"

text \<open>
  The name check of an update (lines 185-193): the new name differs from the current one
  and some product with another id holds it up to case.
\<close>

definition name_conflict :: "product list \<Rightarrow> jsnum \<Rightarrow> nat \<Rightarrow> product_body \<Rightarrow> bool" where
  "name_conflict products productId productIndex body =
     (truthy_str (pb_name body) \<and>
      str (pb_name body) \<noteq> p_name (products ! productIndex) \<and>
      find (\<lambda>p. toLowerCase (p_name p) = toLowerCase (str (pb_name body)) \<and>
                 \<not> has_id productId p) products \<noteq> None)"

text \<open>\<^verbatim>\<open>PUT /:id\<close> (admin only); \<open>id_text\<close> is the path parameter.\<close>

definition update_product ::
  "caller \<Rightarrow> string \<Rightarrow> product_body \<Rightarrow> nat \<Rightarrow> product disk
     \<Rightarrow> (error + product) \<times> product disk"
where
  "update_product c id_text body now pd =
     (if role c \<noteq> ''admin'' then (Inl ForbiddenError, pd)
      else
        (let productId = parseInt id_text;
             (products, pd1) = readData ''products'' pd
         in case findIndex (has_id productId) products of
              None \<Rightarrow> (Inl NotFoundError, pd1)
            | Some productIndex \<Rightarrow>
                if truthy_num (pb_price body) \<and> le_zero (pb_price body)
                then (Inl (ValidationError ''Price must be greater than 0''), pd1)
                else if name_conflict products productId productIndex body
                then (Inl DuplicateNameError, pd1)
                else
                  (let updated = apply_update body now (products ! productIndex);
                       products1 = products[productIndex := updated];
                       (ok, pd2) = writeData (\<lambda>r. r) ''products'' products1 pd1
                   in (Inr updated, pd2))))"

text \<open>The invariant of the product collection: no two products share a name up to case.\<close>

definition names_unique :: "product list \<Rightarrow> bool" where
  "names_unique ps = distinct (map (\<lambda>p. toLowerCase (p_name p)) ps)"

section \<open>Notions of the specification\<close>

text \<open>
  The specification speaks of items that resolve in the catalog with a positive quantity,
  of \<open>computedTotal = \<Sum>(catalogPrice \<times> quantity)\<close> and of the name and price
  snapshot of a line. These definitions follow its words; the theorems compare them with
  what the route computes.
\<close>

definition findById :: "product list \<Rightarrow> nat \<Rightarrow> product option" where
  "findById products i = find (\<lambda>p. p_id p = i) products"

definition positive_quantity :: "req_item \<Rightarrow> bool" where
  "positive_quantity item = (case ri_quantity item of None \<Rightarrow> False | Some q \<Rightarrow> 0 < q)"

definition item_valid :: "product list \<Rightarrow> req_item \<Rightarrow> bool" where
  "item_valid products item = (findById products (ri_id item) \<noteq> None \<and> positive_quantity item)"

definition catalogPrice :: "product list \<Rightarrow> req_item \<Rightarrow> rat" where
  "catalogPrice products item =
     (case findById products (ri_id item) of None \<Rightarrow> 0 | Some p \<Rightarrow> p_price p)"

text \<open>
  \<open>computedTotal\<close> is the sum of \<open>catalogPrice \<times> quantity\<close> over the lines, from the
  left and starting at \<open>0\<close>, in double arithmetic (which is not associative).
\<close>

definition line_total :: "product list \<Rightarrow> req_item \<Rightarrow> rat" where
  "line_total products item = fl_mul (catalogPrice products item) (num (ri_quantity item))"

definition running_total :: "product list \<Rightarrow> rat \<Rightarrow> req_item list \<Rightarrow> rat" where
  "running_total products c its = foldl (\<lambda>s item. fl_add s (line_total products item)) c its"

definition computedTotal :: "product list \<Rightarrow> req_item list \<Rightarrow> rat" where
  "computedTotal products its = running_total products 0 its"

definition snapshot :: "product list \<Rightarrow> req_item \<Rightarrow> line_item option" where
  "snapshot products item =
     (case findById products (ri_id item) of
        None \<Rightarrow> None
      | Some p \<Rightarrow>
          Some \<lparr>li_id = p_id p, li_name = p_name p, li_price = p_price p,
                li_quantity = num (ri_quantity item),
                li_subtotal = fl_mul (p_price p) (num (ri_quantity item))\<rparr>)"

text \<open>
  The amounts of a request are doubles and no step of the computation overflows: the
  declared total, the prices and the quantities are finite doubles, and every line total,
  every running sum and the final difference stay below \<open>2^1024\<close>.
\<close>

fun sums_in_range :: "product list \<Rightarrow> rat \<Rightarrow> req_item list \<Rightarrow> bool" where
  "sums_in_range products c [] = True"
| "sums_in_range products c (item # rest) =
     (in_range (line_total products item) \<and>
      in_range (fl_add c (line_total products item)) \<and>
      sums_in_range products (fl_add c (line_total products item)) rest)"

definition amounts_are_doubles :: "product list \<Rightarrow> req_item list \<Rightarrow> rat \<Rightarrow> bool" where
  "amounts_are_doubles products its declared =
     (is_double declared \<and>
      list_all (\<lambda>item. is_double (catalogPrice products item) \<and>
                       is_double (num (ri_quantity item))) its \<and>
      sums_in_range products 0 its \<and>
      in_range (fl_sub (computedTotal products its) declared))"

text \<open>The declared total passes the check of line 31: it is present and positive.\<close>

definition total_positive :: "order_body \<Rightarrow> bool" where
  "total_positive body = (case b_total body of None \<Rightarrow> False | Some t \<Rightarrow> 0 < t)"

section \<open>Sample data\<close>

text \<open>Concrete stores and requests at which the theorems below are instantiated.\<close>

definition widget :: product where
  "widget = \<lparr>p_id = 1, p_name = ''Widget'', p_price = 2, p_category = ''Tools'',
     p_description = ''A widget'', p_image = ''/w.png'', p_featured = False,
     p_createdAt = 100, p_updatedAt = 100\<rparr>"

definition catalog_disk :: "product disk" where
  "catalog_disk =
     \<lparr>dir_exists = True, files = (\<lambda>_. None)(''products'' \<mapsto> Stored [widget]), writable = True\<rparr>"

definition empty_orders_disk :: "order disk" where
  "empty_orders_disk =
     \<lparr>dir_exists = True, files = (\<lambda>_. None)(''orders'' \<mapsto> Stored []), writable = True\<rparr>"

definition world0 :: world where
  "world0 = \<lparr>products_disk = catalog_disk, orders_disk = empty_orders_disk\<rparr>"

definition request :: "req_item list \<Rightarrow> rat option \<Rightarrow> order_body" where
  "request its t =
     \<lparr>b_email = Some ''a@b.c'', b_firstName = Some ''Ann'', b_lastName = Some ''Lee'',
      b_address = Some ''1 Main St'', b_city = Some ''Rome'', b_zipCode = Some ''00100'',
      b_paymentMethod = Some ''card'', b_items = Some its, b_total = t, b_userId = Some 7\<rparr>"

definition widgets :: "rat option \<Rightarrow> req_item" where
  "widgets q = \<lparr>ri_id = 1, ri_quantity = q\<rparr>"

definition customer0 :: customer_info where
  "customer0 = \<lparr>ci_email = ''a@b.c'', ci_firstName = ''Ann'', ci_lastName = ''Lee'',
     ci_address = ''1 Main St'', ci_city = ''Rome'', ci_zipCode = ''00100''\<rparr>"

definition widget_line :: "rat \<Rightarrow> line_item" where
  "widget_line q = \<lparr>li_id = 1, li_name = ''Widget'', li_price = 2, li_quantity = q,
     li_subtotal = 2 * q\<rparr>"

definition placed :: "rat \<Rightarrow> nat \<Rightarrow> nat \<Rightarrow> order" where
  "placed q t_created t_updated =
     \<lparr>o_id = 1000, o_orderNumber = 1000, o_userId = Some 7, o_customerInfo = customer0,
      o_items = [widget_line q], o_total = 2 * q, o_paymentMethod = ''card'',
      o_status = ''completed'', o_paymentStatus = ''paid'',
      o_createdAt = t_created, o_updatedAt = t_updated\<rparr>"

definition order_of :: "nat \<Rightarrow> nat \<Rightarrow> order" where
  "order_of uid t =
     \<lparr>o_id = t, o_orderNumber = t, o_userId = Some uid, o_customerInfo = customer0,
      o_items = [widget_line 5], o_total = 10, o_paymentMethod = ''card'',
      o_status = ''completed'', o_paymentStatus = ''paid'',
      o_createdAt = t, o_updatedAt = t\<rparr>"

definition orders_disk1 :: "order disk" where
  "orders_disk1 =
     \<lparr>dir_exists = True,
      files = (\<lambda>_. None)(''orders'' \<mapsto> Stored [order_of 7 10, order_of 8 20, order_of 7 30]),
      writable = True\<rparr>"

definition admin0 :: caller where
  "admin0 = \<lparr>userId = 1, role = ''admin''\<rparr>"

definition shopper0 :: caller where
  "shopper0 = \<lparr>userId = 7, role = ''customer''\<rparr>"

definition new_disk :: "product disk" where
  "new_disk = \<lparr>dir_exists = True, files = (\<lambda>_. None), writable = True\<rparr>"

definition new_product :: "string \<Rightarrow> product_body" where
  "new_product n =
     \<lparr>pb_name = Some n, pb_price = Some 5, pb_category = Some ''Tools'',
      pb_description = Some ''A tool'', pb_image = None, pb_featured = None\<rparr>"

definition rename_to :: "string \<Rightarrow> product_body" where
  "rename_to n =
     \<lparr>pb_name = Some n, pb_price = None, pb_category = None, pb_description = None,
      pb_image = None, pb_featured = None\<rparr>"

definition zero_price :: product_body where
  "zero_price =
     \<lparr>pb_name = None, pb_price = Some 0, pb_category = None, pb_description = None,
      pb_image = None, pb_featured = None\<rparr>"

text \<open>Two products created within the same millisecond, then a rename of that id.\<close>

definition two_tools :: "product disk" where
  "two_tools =
     snd (create_product admin0 (new_product ''Saw'') 5 5 5
       (snd (create_product admin0 (new_product ''Axe'') 5 5 5 new_disk)))"

text \<open>
  A collection of JSON records, and one whose file holds the text \<^verbatim>\<open>[1e400]\<close>: the
  literal is beyond the doubles and \<^verbatim>\<open>JSON.parse\<close> reads it as \<open>Infinity\<close>.
\<close>

definition json_record :: jsval where
  "json_record =
     VObj [(''id'', VNum (Fin 7)), (''name'', VStr ''Widget''), (''price'', VNum (Fin (5 / 2))),
           (''tags'', VArr [VStr ''a'', VNull, VBool True])]"

definition json_disk :: "jsval disk" where
  "json_disk =
     \<lparr>dir_exists = True, files = (\<lambda>_. None)(''orders'' \<mapsto> Stored [json_record, VNull]),
      writable = True\<rparr>"

definition overflow_disk :: "jsval disk" where
  "overflow_disk =
     \<lparr>dir_exists = True, files = (\<lambda>_. None)(''orders'' \<mapsto> Stored [VNum Infinity]),
      writable = True\<rparr>"

section \<open>Properties\<close>

subsection \<open>Record store\<close>

lemma load_after_write:
  "writable d \<Longrightarrow> load filename (snd (writeData reparse filename xs d)) = map reparse xs"
  by (simp add: load_def readData_def writeData_def existsSync_def Let_def)

lemma load_after_read: "load filename (snd (readData filename d)) = load filename d"
  by (auto simp: load_def readData_def existsSync_def split: option.splits json_file.splits)

lemma writable_after_read: "writable (snd (readData filename d)) = writable d"
  by (auto simp: readData_def split: option.splits json_file.splits)

lemma writable_after_write: "writable (snd (writeData reparse filename xs d)) = writable d"
  by (simp add: writeData_def Let_def)

lemma load_after_writeData:
  "load filename (snd (writeData reparse filename xs d)) =
     (if writable d then map reparse xs else load filename d)"
  using load_after_write [of d filename reparse xs] by (simp add: writeData_def)

lemma read_nonempty_keeps_disk:
  "fst (readData filename d) \<noteq> [] \<Longrightarrow> snd (readData filename d) = d"
  by (auto simp: readData_def split: option.splits json_file.splits)

lemma save_load_eq:
  "save_load reparse filename d =
     snd (writeData reparse filename (load filename d) (snd (readData filename d)))"
  by (simp add: save_load_def load_def split_beta)

lemma load_save_load:
  "load filename (save_load reparse filename d) =
     (if writable d then map reparse (load filename d) else load filename d)"
  by (simp add: save_load_eq load_after_writeData writable_after_read load_after_read)

lemma writable_save_load: "writable (save_load reparse filename d) = writable d"
  by (simp add: save_load_eq writable_after_write writable_after_read)

lemma after_json_twice: "after_json (after_json v) = after_json v"
  by (induction v) (auto split: jsnum.splits)

lemma plain_numbers_after_json: "plain_numbers v \<Longrightarrow> after_json v = v"
proof (induction v)
  case (VObj kvs)
  have "map (map_prod (\<lambda>k. k) after_json) kvs = kvs"
  proof (rule map_idI)
    fix kv
    assume m: "kv \<in> set kvs"
    obtain k w where kv: "kv = (k, w)" by (cases kv)
    have "plain_numbers w" using VObj.prems m kv by (auto simp: list_all_iff)
    then have "after_json w = w" using VObj.IH [of kv w] m kv by simp
    then show "map_prod (\<lambda>k. k) after_json kv = kv" using kv by simp
  qed
  then show ?case by simp
qed (auto simp: list_all_iff map_idI split: jsnum.splits)

text \<open>
  C9 (as the code has it). For every file name and every disk state (file missing,
  unreadable or holding records; directory present or not; disk writable or not):
  when every record the load returns has only finite numbers other than the negative
  zero, the load after \<open>save(name, load(name))\<close> returns the same records; and in every
  case, once a collection has been written back, writing it back again changes nothing
  a load returns.
\<close>

theorem save_load_roundtrip:
  "(list_all plain_numbers (load filename d) \<longrightarrow>
      load filename (save_load after_json filename d) = load filename d) \<and>
   load filename (save_load after_json filename (save_load after_json filename d)) =
     load filename (save_load after_json filename d)"
proof -
  have stable: "map after_json (load filename d) = load filename d"
    if "list_all plain_numbers (load filename d)"
    using that by (simp add: list_all_iff map_idI plain_numbers_after_json)
  have once: "load filename (save_load after_json filename d) = load filename d"
    if "list_all plain_numbers (load filename d)"
    using stable [OF that] by (simp add: load_save_load)
  have "map after_json (map after_json (load filename d)) = map after_json (load filename d)"
    by (simp add: after_json_twice)
  then have twice:
    "load filename (save_load after_json filename (save_load after_json filename d)) =
       load filename (save_load after_json filename d)"
    by (simp add: load_save_load writable_save_load)
  show ?thesis using once twice by blast
qed

theorem save_load_roundtrip_witness:
  "list_all plain_numbers (load ''orders'' json_disk) \<and>
   load ''orders'' json_disk = [json_record, VNull] \<and>
   load ''orders'' (save_load after_json ''orders'' json_disk) = [json_record, VNull]"
proof -
  have l: "load ''orders'' json_disk = [json_record, VNull]"
    by (simp add: load_def readData_def existsSync_def json_disk_def)
  have p: "list_all plain_numbers (load ''orders'' json_disk)"
    unfolding l by (simp add: json_record_def)
  show ?thesis
    using save_load_roundtrip [of "''orders''" json_disk] p l by simp
qed

text \<open>
  C9 as stated fails. The file holds the text \<^verbatim>\<open>[1e400]\<close>: the load returns
  \<open>[Infinity]\<close>, \<^verbatim>\<open>JSON.stringify\<close> writes it back as \<^verbatim>\<open>[null]\<close>, and the next load returns
  \<open>[null]\<close>.
\<close>

theorem overflow_not_restored:
  "load ''orders'' overflow_disk = [VNum Infinity] \<and>
   load ''orders'' (save_load after_json ''orders'' overflow_disk) = [VNull] \<and>
   load ''orders'' (save_load after_json ''orders'' overflow_disk) \<noteq>
     load ''orders'' overflow_disk"
proof -
  have l: "load ''orders'' overflow_disk = [VNum Infinity]"
    by (simp add: load_def readData_def existsSync_def overflow_disk_def)
  have w: "writable overflow_disk" by (simp add: overflow_disk_def)
  show ?thesis by (simp add: load_save_load w l)
qed

subsection \<open>The item loop\<close>

lemma validate_items_step_valid:
  "item_valid ps it \<Longrightarrow>
   validate_items ps (it # rest) c acc =
     validate_items ps rest (fl_add c (line_total ps it)) (acc @ [the (snapshot ps it)])"
  by (auto simp: item_valid_def findById_def positive_quantity_def catalogPrice_def
        line_total_def snapshot_def truthy_num_def le_zero_def Let_def split: option.splits)

lemma validate_items_prefix:
  "list_all (item_valid ps) pre \<Longrightarrow>
   validate_items ps (pre @ rest) c acc =
     validate_items ps rest (running_total ps c pre)
       (acc @ map (\<lambda>it. the (snapshot ps it)) pre)"
proof (induction pre arbitrary: c acc)
  case Nil
  then show ?case by (simp add: running_total_def)
next
  case (Cons it pre)
  then have v: "item_valid ps it" and vs: "list_all (item_valid ps) pre" by simp_all
  show ?case
    using Cons.IH [OF vs] validate_items_step_valid [OF v]
    by (simp add: running_total_def)
qed

lemma validate_items_Inr:
  "validate_items ps its c acc = Inr (t, vs) \<Longrightarrow>
   list_all (item_valid ps) its \<and> t = running_total ps c its \<and>
   map Some vs = map Some acc @ map (snapshot ps) its"
proof (induction its arbitrary: c acc)
  case Nil
  then show ?case by (simp add: running_total_def)
next
  case (Cons it its)
  from Cons.prems obtain p where p: "find (\<lambda>p. p_id p = ri_id it) ps = Some p"
    by (auto split: option.splits)
  from Cons.prems p have q: "\<not> (\<not> truthy_num (ri_quantity it) \<or> le_zero (ri_quantity it))"
    by (auto split: if_splits)
  then have v: "item_valid ps it"
    using p
    by (auto simp: item_valid_def findById_def positive_quantity_def truthy_num_def
          le_zero_def split: option.splits)
  from Cons.prems
  have "validate_items ps its (fl_add c (line_total ps it))
       (acc @ [the (snapshot ps it)]) = Inr (t, vs)"
    using validate_items_step_valid [OF v] by simp
  from Cons.IH [OF this] show ?case
    using v p by (simp add: running_total_def snapshot_def findById_def)
qed

lemma validate_items_all_valid:
  "list_all (item_valid ps) its \<Longrightarrow>
   validate_items ps its c acc =
     Inr (running_total ps c its, acc @ map (\<lambda>it. the (snapshot ps it)) its)"
  using validate_items_prefix [of ps its "[]" c acc] by simp

lemma validate_items_unknown:
  "list_all (item_valid ps) pre \<Longrightarrow> findById ps (ri_id it) = None \<Longrightarrow>
   validate_items ps (pre @ it # post) c acc = Inl (UnknownProductError (ri_id it))"
  by (simp add: validate_items_prefix findById_def)

lemma validate_items_bad_quantity:
  "list_all (item_valid ps) pre \<Longrightarrow> findById ps (ri_id it) = Some p \<Longrightarrow>
   \<not> positive_quantity it \<Longrightarrow>
   validate_items ps (pre @ it # post) c acc = Inl (InvalidQuantityError (p_name p))"
  by (auto simp: validate_items_prefix findById_def positive_quantity_def truthy_num_def
        le_zero_def split: option.splits)

lemma validate_items_invalid:
  "\<not> list_all (item_valid ps) its \<Longrightarrow> \<exists>e. validate_items ps its c acc = Inl e"
  using validate_items_Inr [of ps its c acc]
  by (cases "validate_items ps its c acc") auto

subsection \<open>Creating an order\<close>

lemma total_positive_iff:
  "total_positive body = (\<not> (\<not> truthy_num (b_total body) \<or> le_zero (b_total body)))"
  by (auto simp: total_positive_def truthy_num_def le_zero_def split: option.splits)

text \<open>The route once the three checks of lines 23-33 have passed.\<close>

lemma create_order_checked:
  assumes "billing_present body" "items_of body \<noteq> []" "total_positive body"
  shows "create_order body n1 n2 n3 n4 w =
     (let (products, pd) = readData ''products'' (products_disk w);
          w1 = w\<lparr>products_disk := pd\<rparr>;
          total = num (b_total body)
      in case validate_items products (items_of body) 0 [] of
           Inl e \<Rightarrow> (Inl e, w1)
         | Inr (calculatedTotal, validatedItems) \<Rightarrow>
             if \<bar>fl_sub calculatedTotal total\<bar> > cent
             then (Inl (TotalMismatchError calculatedTotal total), w1)
             else
               (let (orders, od) = readData ''orders'' (orders_disk w1);
                    newOrder =
                      \<lparr>o_id = n1, o_orderNumber = n2, o_userId = or_null (b_userId body),
                       o_customerInfo =
                         \<lparr>ci_email = str (b_email body), ci_firstName = str (b_firstName body),
                          ci_lastName = str (b_lastName body), ci_address = str (b_address body),
                          ci_city = str (b_city body), ci_zipCode = str (b_zipCode body)\<rparr>,
                       o_items = validatedItems, o_total = calculatedTotal,
                       o_paymentMethod = str (b_paymentMethod body),
                       o_status = ''completed'', o_paymentStatus = ''paid'',
                       o_createdAt = n3, o_updatedAt = n4\<rparr>;
                    (ok, od1) = writeData (\<lambda>r. r) ''orders'' (orders @ [newOrder]) od
                in (Inr newOrder, w1\<lparr>orders_disk := od1\<rparr>)))"
  using assms unfolding create_order_def total_positive_iff by simp

lemma create_order_Inr_checked:
  "fst (create_order body n1 n2 n3 n4 w) = Inr ord \<Longrightarrow>
   billing_present body \<and> items_of body \<noteq> [] \<and> total_positive body"
  unfolding create_order_def total_positive_iff
  by (auto split: if_splits)

lemma create_order_failure_keeps_orders:
  "fst (create_order body n1 n2 n3 n4 w) = Inl e \<Longrightarrow>
   orders_disk (snd (create_order body n1 n2 n3 n4 w)) = orders_disk w"
  unfolding create_order_def
  by (auto simp: split_beta Let_def split: if_splits sum.splits)

text \<open>Evaluation of the sample requests.\<close>

lemma load_catalog: "load ''products'' (products_disk world0) = [widget]"
  by (simp add: load_def readData_def existsSync_def world0_def catalog_disk_def)

lemma request_checks:
  "billing_present (request its t) = True" "items_of (request its t) = its"
  "b_total (request its t) = t"
  by (simp_all add: request_def billing_present_def truthy_str_def items_of_def)

lemma widgets_valid: "item_valid [widget] (widgets (Some q)) = (0 < q)"
  by (simp add: item_valid_def findById_def positive_quantity_def widgets_def widget_def)

lemma widget_totals:
  "computedTotal [widget] [widgets (Some 1)] = 2"
  "computedTotal [widget] [widgets (Some 2)] = 4"
  by code_simp+

text \<open>
  C1 (as the code has it). For every request with all billing fields present, a non-empty
  item list, a declared total that is present and positive, items that all resolve in
  the catalog with positive quantities, and amounts that are doubles whose computation
  does not overflow: the request fails with \<open>TotalMismatchError\<close>, carrying the computed
  and the provided value, exactly when \<open>|computedTotal - declaredTotal| > 0.01\<close> in
  double arithmetic, where \<open>computedTotal\<close> is the double sum of the line totals; and
  otherwise the order is created, its total the computed one.
\<close>

theorem total_mismatch_iff:
  assumes "billing_present body" and "items_of body \<noteq> []" and "total_positive body"
    and "list_all (item_valid (load ''products'' (products_disk w))) (items_of body)"
    and "amounts_are_doubles (load ''products'' (products_disk w)) (items_of body)
           (num (b_total body))"
  shows "(if \<bar>fl_sub (computedTotal (load ''products'' (products_disk w)) (items_of body))
                (num (b_total body))\<bar> > cent
          then fst (create_order body n1 n2 n3 n4 w) =
                 Inl (TotalMismatchError
                        (computedTotal (load ''products'' (products_disk w)) (items_of body))
                        (num (b_total body)))
          else \<exists>ord. fst (create_order body n1 n2 n3 n4 w) = Inr ord \<and>
                 o_total ord = computedTotal (load ''products'' (products_disk w)) (items_of body))"
proof -
  let ?ps = "load ''products'' (products_disk w)"
  have v: "validate_items (fst (readData ''products'' (products_disk w))) (items_of body) 0 [] =
      Inr (computedTotal ?ps (items_of body), map (\<lambda>it. the (snapshot ?ps it)) (items_of body))"
    using validate_items_all_valid [OF assms(4), of 0 "[]"]
    by (simp add: load_def computedTotal_def)
  show ?thesis
    unfolding create_order_checked [OF assms(1-3)]
    by (simp add: split_beta Let_def v)
qed

text \<open>
  At the catalog price \<open>2\<close>: the declared total \<^verbatim>\<open>1.99\<close> is rejected, because the double
  difference \<open>2 - 1.99\<close> is above the double \<open>0.01\<close>, and the declared total \<^verbatim>\<open>2.01\<close> is
  accepted.
\<close>

theorem total_mismatch_iff_witness:
  "billing_present (request [widgets (Some 1)] (Some (round_double (199 / 100)))) \<and>
   total_positive (request [widgets (Some 1)] (Some (round_double (199 / 100)))) \<and>
   list_all (item_valid (load ''products'' (products_disk world0)))
     (items_of (request [widgets (Some 1)] (Some (round_double (199 / 100))))) \<and>
   amounts_are_doubles (load ''products'' (products_disk world0)) [widgets (Some 1)]
     (round_double (199 / 100)) \<and>
   fst (create_order (request [widgets (Some 1)] (Some (round_double (199 / 100))))
         1000 1000 1000 1000 world0) =
     Inl (TotalMismatchError 2 (round_double (199 / 100))) \<and>
   (\<exists>ord. fst (create_order (request [widgets (Some 1)] (Some (round_double (201 / 100))))
            1000 1000 1000 1000 world0) = Inr ord \<and> o_total ord = 2)"
proof -
  let ?lo = "round_double (199 / 100)"
  let ?hi = "round_double (201 / 100)"
  let ?b = "request [widgets (Some 1)] (Some ?lo)"
  let ?c = "request [widgets (Some 1)] (Some ?hi)"
  have pos: "0 < ?lo" "0 < ?hi" by code_simp+
  have h: "billing_present ?b" "items_of ?b \<noteq> []" "total_positive ?b"
    "list_all (item_valid (load ''products'' (products_disk world0))) (items_of ?b)"
    using pos by (simp_all add: request_checks total_positive_def load_catalog widgets_valid)
  have k: "billing_present ?c" "items_of ?c \<noteq> []" "total_positive ?c"
    "list_all (item_valid (load ''products'' (products_disk world0))) (items_of ?c)"
    using pos by (simp_all add: request_checks total_positive_def load_catalog widgets_valid)
  have a: "amounts_are_doubles [widget] [widgets (Some 1)] ?lo"
    "amounts_are_doubles [widget] [widgets (Some 1)] ?hi"
    by code_simp+
  have d: "\<bar>fl_sub 2 ?lo\<bar> > cent" "\<not> \<bar>fl_sub 2 ?hi\<bar> > cent"
    by code_simp+
  have rejected:
    "fst (create_order ?b 1000 1000 1000 1000 world0) = Inl (TotalMismatchError 2 ?lo)"
    using total_mismatch_iff [OF h, of 1000 1000 1000 1000] a(1) d(1)
    by (simp add: request_checks load_catalog widget_totals num_def)
  have accepted: "\<exists>ord. fst (create_order ?c 1000 1000 1000 1000 world0) = Inr ord \<and> o_total ord = 2"
    using total_mismatch_iff [OF k, of 1000 1000 1000 1000] a(2) d(2)
    by (simp add: request_checks load_catalog widget_totals num_def)
  have a': "amounts_are_doubles (load ''products'' (products_disk world0)) [widgets (Some 1)] ?lo"
    using a(1) by (simp add: load_catalog)
  show ?thesis using h a' rejected accepted by simp
qed

text \<open>
  C1 as stated fails: the item resolves with a positive quantity and the declared total
  \<open>-1\<close> is further than \<open>0.01\<close> from the computed \<open>2\<close>, yet the failure is the validation
  error of line 32, not \<open>TotalMismatchError\<close>.
\<close>

theorem negative_total_not_mismatch:
  "item_valid (load ''products'' (products_disk world0)) (widgets (Some 1)) \<and>
   computedTotal (load ''products'' (products_disk world0)) [widgets (Some 1)] = 2 \<and>
   \<bar>(- 1) - (2 :: rat)\<bar> > 1 / 100 \<and>
   fst (create_order (request [widgets (Some 1)] (Some (- 1))) 1000 1000 1000 1000 world0) =
     Inl (ValidationError ''Invalid order total'') \<and>
   fst (create_order (request [widgets (Some 1)] (Some (- 1))) 1000 1000 1000 1000 world0) \<noteq>
     Inl (TotalMismatchError 2 (- 1))"
  by (simp add: load_catalog widgets_valid widget_totals create_order_def request_checks
        truthy_num_def le_zero_def)

text \<open>
  C3 (as the code has it). A request in which some item's product id is not in the
  catalog always fails and leaves the stored orders as they were. The failure is
  \<open>UnknownProductError\<close> naming that id when the billing fields and the declared total
  pass their checks and every item before it resolves with a positive quantity.
\<close>

theorem unknown_product_rejected:
  assumes "it \<in> set (items_of body)"
    and "findById (load ''products'' (products_disk w)) (ri_id it) = None"
  shows "(\<exists>e. fst (create_order body n1 n2 n3 n4 w) = Inl e) \<and>
         orders_disk (snd (create_order body n1 n2 n3 n4 w)) = orders_disk w \<and>
         (billing_present body \<and> total_positive body \<and>
          (\<exists>pre post. items_of body = pre @ it # post \<and>
             list_all (item_valid (load ''products'' (products_disk w))) pre)
          \<longrightarrow> fst (create_order body n1 n2 n3 n4 w) = Inl (UnknownProductError (ri_id it)))"
proof -
  let ?ps = "load ''products'' (products_disk w)"
  let ?r = "create_order body n1 n2 n3 n4 w"
  have "\<not> item_valid ?ps it" using assms(2) by (simp add: item_valid_def)
  then have nv: "\<not> list_all (item_valid ?ps) (items_of body)"
    using assms(1) by (auto simp: list_all_iff)
  have fails: "\<exists>e. fst ?r = Inl e"
  proof (cases "fst ?r")
    case (Inl e)
    then show ?thesis by blast
  next
    case (Inr ord)
    from create_order_Inr_checked [OF Inr]
    have c: "billing_present body" "items_of body \<noteq> []" "total_positive body" by simp_all
    obtain e where
      "validate_items (fst (readData ''products'' (products_disk w))) (items_of body) 0 [] = Inl e"
      using validate_items_invalid [OF nv, of 0 "[]"] by (auto simp: load_def)
    then have "fst ?r = Inl e"
      unfolding create_order_checked [OF c] by (simp add: split_beta Let_def)
    then show ?thesis by blast
  qed
  then have keep: "orders_disk (snd ?r) = orders_disk w"
    using create_order_failure_keeps_orders by blast
  have named: "fst ?r = Inl (UnknownProductError (ri_id it))"
    if b: "billing_present body" and t: "total_positive body"
      and s: "items_of body = pre @ it # post" and p: "list_all (item_valid ?ps) pre"
    for pre post
  proof -
    have ne: "items_of body \<noteq> []" using s by simp
    have "validate_items (fst (readData ''products'' (products_disk w))) (items_of body) 0 [] =
        Inl (UnknownProductError (ri_id it))"
      using validate_items_unknown [OF p assms(2), of post 0 "[]"] s by (simp add: load_def)
    then show ?thesis
      unfolding create_order_checked [OF b ne t] by (simp add: split_beta Let_def)
  qed
  show ?thesis using fails keep named by blast
qed

theorem unknown_product_rejected_witness:
  "fst (create_order (request [widgets (Some 1), \<lparr>ri_id = 999, ri_quantity = Some 1\<rparr>] (Some 3))
         1000 1000 1000 1000 world0) = Inl (UnknownProductError 999) \<and>
   orders_disk (snd (create_order
         (request [widgets (Some 1), \<lparr>ri_id = 999, ri_quantity = Some 1\<rparr>] (Some 3))
         1000 1000 1000 1000 world0)) = orders_disk world0"
proof -
  let ?it = "\<lparr>ri_id = 999, ri_quantity = Some 1\<rparr>"
  let ?b = "request [widgets (Some 1), ?it] (Some 3)"
  have m: "?it \<in> set (items_of ?b)" by (simp add: request_checks)
  have u: "findById (load ''products'' (products_disk world0)) (ri_id ?it) = None"
    by (simp add: load_catalog findById_def widget_def)
  have "items_of ?b = [widgets (Some 1)] @ ?it # [] \<and>
      list_all (item_valid (load ''products'' (products_disk world0))) [widgets (Some 1)]"
    by (simp add: request_checks load_catalog widgets_valid)
  then have "\<exists>pre post. items_of ?b = pre @ ?it # post \<and>
         list_all (item_valid (load ''products'' (products_disk world0))) pre"
    by blast
  then have h: "billing_present ?b \<and> total_positive ?b \<and>
      (\<exists>pre post. items_of ?b = pre @ ?it # post \<and>
         list_all (item_valid (load ''products'' (products_disk world0))) pre)"
    by (simp add: request_checks total_positive_def)
  show ?thesis
    using unknown_product_rejected [OF m u, of 1000 1000 1000 1000] h by simp
qed

text \<open>
  C3 as stated fails: the second item names product \<open>999\<close>, which is not in the catalog,
  but the first item has no quantity and the loop stops there with \<open>InvalidQuantityError\<close>.
\<close>

theorem unknown_product_after_bad_quantity:
  "findById (load ''products'' (products_disk world0)) 999 = None \<and>
   fst (create_order (request [widgets None, \<lparr>ri_id = 999, ri_quantity = Some 1\<rparr>] (Some 3))
         1000 1000 1000 1000 world0) = Inl (InvalidQuantityError ''Widget'') \<and>
   fst (create_order (request [widgets None, \<lparr>ri_id = 999, ri_quantity = Some 1\<rparr>] (Some 3))
         1000 1000 1000 1000 world0) \<noteq> Inl (UnknownProductError 999)"
  by code_simp

text \<open>
  C4 (as the code has it). In a request whose billing fields and declared total pass
  their checks, the first item that is not valid, when its product resolves and its
  quantity is absent, zero or negative, makes the request fail with
  \<open>InvalidQuantityError\<close> naming the product, and the stored orders stay as they were.
  (Positive quantities pass the check of line 46 whether or not they are integers.)
\<close>

theorem invalid_quantity_rejected:
  assumes "billing_present body" and "total_positive body"
    and "items_of body = pre @ it # post"
    and "list_all (item_valid (load ''products'' (products_disk w))) pre"
    and "findById (load ''products'' (products_disk w)) (ri_id it) = Some p"
    and "\<not> positive_quantity it"
  shows "fst (create_order body n1 n2 n3 n4 w) = Inl (InvalidQuantityError (p_name p)) \<and>
         orders_disk (snd (create_order body n1 n2 n3 n4 w)) = orders_disk w"
proof -
  have ne: "items_of body \<noteq> []" using assms(3) by simp
  have "validate_items (fst (readData ''products'' (products_disk w))) (items_of body) 0 [] =
      Inl (InvalidQuantityError (p_name p))"
    using validate_items_bad_quantity [OF assms(4) assms(5) assms(6), of post 0 "[]"] assms(3)
    by (simp add: load_def)
  then have r: "fst (create_order body n1 n2 n3 n4 w) = Inl (InvalidQuantityError (p_name p))"
    unfolding create_order_checked [OF assms(1) ne assms(2)] by (simp add: split_beta Let_def)
  then show ?thesis using create_order_failure_keeps_orders by blast
qed

theorem invalid_quantity_rejected_witness:
  "\<not> positive_quantity (widgets (Some 0)) \<and>
   fst (create_order (request [widgets (Some 1), widgets (Some 0)] (Some 2))
         1000 1000 1000 1000 world0) = Inl (InvalidQuantityError ''Widget'') \<and>
   orders_disk (snd (create_order (request [widgets (Some 1), widgets (Some 0)] (Some 2))
         1000 1000 1000 1000 world0)) = orders_disk world0"
proof -
  let ?b = "request [widgets (Some 1), widgets (Some 0)] (Some 2)"
  have h1: "billing_present ?b" "total_positive ?b"
    "items_of ?b = [widgets (Some 1)] @ widgets (Some 0) # []"
    "list_all (item_valid (load ''products'' (products_disk world0))) [widgets (Some 1)]"
    by (simp_all add: request_checks total_positive_def load_catalog widgets_valid)
  have h2:
    "findById (load ''products'' (products_disk world0)) (ri_id (widgets (Some 0))) = Some widget"
    "\<not> positive_quantity (widgets (Some 0))"
    by (simp_all add: load_catalog findById_def widgets_def widget_def positive_quantity_def)
  note h = h1 h2
  have n: "p_name widget = ''Widget''" by (simp add: widget_def)
  show ?thesis
    using invalid_quantity_rejected [OF h, of 1000 1000 1000 1000] h(6) n by simp
qed

text \<open>
  C4 as stated fails: the quantity \<open>3/2\<close> is positive and not an integer, and the order
  is created and stored, priced at \<open>2 \<times> 3/2 = 3\<close>.
\<close>

theorem fractional_quantity_accepted:
  "fst (create_order (request [widgets (Some (3 / 2))] (Some 3)) 1000 1000 1000 1000 world0) =
     Inr (placed (3 / 2) 1000 1000) \<and>
   load ''orders'' (orders_disk (snd
     (create_order (request [widgets (Some (3 / 2))] (Some 3)) 1000 1000 1000 1000 world0))) =
     [placed (3 / 2) 1000 1000]"
  by code_simp

text \<open>
  C6 (as the code has it). An order that passes validation has the computed total (not
  the declared one), status \<open>completed\<close>, payment status \<open>paid\<close>, and one line per
  requested item with the catalog's id, name and price, the quantity and the subtotal.
  \<open>createdAt\<close> and \<open>updatedAt\<close> are two consecutive clock readings (lines 90 and 91),
  equal when the clock shows the same instant at both. When the disk takes the write, the
  stored collection is the former one followed by this order.
\<close>

theorem created_order_fields:
  assumes "fst (create_order body n1 n2 n3 n4 w) = Inr ord"
  shows "o_total ord = computedTotal (load ''products'' (products_disk w)) (items_of body) \<and>
         o_status ord = ''completed'' \<and> o_paymentStatus ord = ''paid'' \<and>
         map Some (o_items ord) =
           map (snapshot (load ''products'' (products_disk w))) (items_of body) \<and>
         o_createdAt ord = n3 \<and> o_updatedAt ord = n4 \<and>
         (writable (orders_disk w) \<longrightarrow>
            load ''orders'' (orders_disk (snd (create_order body n1 n2 n3 n4 w))) =
              load ''orders'' (orders_disk w) @ [ord])"
proof -
  let ?ps = "load ''products'' (products_disk w)"
  from create_order_Inr_checked [OF assms]
  have c: "billing_present body" "items_of body \<noteq> []" "total_positive body" by simp_all
  note eq = create_order_checked [OF c, of n1 n2 n3 n4 w]
  obtain t vs where v: "validate_items ?ps (items_of body) 0 [] = Inr (t, vs)"
    using assms unfolding eq
    by (cases "validate_items ?ps (items_of body) 0 []") (auto simp: split_beta Let_def load_def)
  from validate_items_Inr [OF v]
  have t: "t = running_total ?ps 0 (items_of body)"
    and vs: "map Some vs = map (snapshot ?ps) (items_of body)" by simp_all
  have ok: "\<not> \<bar>fl_sub t (num (b_total body))\<bar> > cent"
    using assms v unfolding eq by (auto simp: split_beta Let_def load_def split: if_splits)
  have fields: "o_total ord = t \<and> o_status ord = ''completed'' \<and> o_paymentStatus ord = ''paid'' \<and>
      o_items ord = vs \<and> o_createdAt ord = n3 \<and> o_updatedAt ord = n4"
    using assms v ok unfolding eq by (auto simp: split_beta Let_def load_def)
  have stored: "load ''orders'' (orders_disk (snd (create_order body n1 n2 n3 n4 w))) =
              load ''orders'' (orders_disk w) @ [ord]" if wr: "writable (orders_disk w)"
  proof -
    have w1: "writable (snd (readData ''orders'' (orders_disk w)))"
      using wr by (auto simp: readData_def split: option.splits json_file.splits)
    have "snd (create_order body n1 n2 n3 n4 w) =
       (w\<lparr>products_disk := snd (readData ''products'' (products_disk w))\<rparr>)
         \<lparr>orders_disk := snd (writeData (\<lambda>r. r) ''orders''
             (fst (readData ''orders'' (orders_disk w)) @ [ord])
             (snd (readData ''orders'' (orders_disk w))))\<rparr>"
      using assms v ok unfolding eq by (auto simp: split_beta Let_def load_def)
    then show ?thesis
      using load_after_write [OF w1, of "''orders''" "\<lambda>r. r"] by (simp add: load_def)
  qed
  show ?thesis using fields t vs stored by (simp add: computedTotal_def)
qed

theorem created_order_fields_witness:
  "fst (create_order (request [widgets (Some 2)] (Some 4)) 1000 1000 1000 1000 world0) =
     Inr (placed 2 1000 1000) \<and>
   o_total (placed 2 1000 1000) = 4 \<and>
   o_status (placed 2 1000 1000) = ''completed'' \<and>
   o_paymentStatus (placed 2 1000 1000) = ''paid'' \<and>
   o_items (placed 2 1000 1000) = [widget_line 2] \<and>
   load ''orders'' (orders_disk (snd
     (create_order (request [widgets (Some 2)] (Some 4)) 1000 1000 1000 1000 world0))) =
     [placed 2 1000 1000]"
proof -
  let ?b = "request [widgets (Some 2)] (Some 4)"
  have r: "fst (create_order ?b 1000 1000 1000 1000 world0) = Inr (placed 2 1000 1000)"
    by code_simp
  have wr: "writable (orders_disk world0)" "load ''orders'' (orders_disk world0) = []"
    by (simp_all add: world0_def empty_orders_disk_def load_def readData_def existsSync_def)
  have i: "o_items (placed 2 1000 1000) = [widget_line 2]" by (simp add: placed_def)
  show ?thesis
    using created_order_fields [OF r] r wr i
    by (simp add: load_catalog request_checks widget_totals)
qed

text \<open>
  C6 as stated fails for the time stamps: when the clock moves from \<open>1000\<close> to \<open>1001\<close>
  between lines 90 and 91, the created order has \<open>createdAt \<noteq> updatedAt\<close>.
\<close>

theorem timestamps_can_differ:
  "fst (create_order (request [widgets (Some 2)] (Some 4)) 1000 1000 1000 1001 world0) =
     Inr (placed 2 1000 1001) \<and>
   o_createdAt (placed 2 1000 1001) = 1000 \<and> o_updatedAt (placed 2 1000 1001) = 1001 \<and>
   o_createdAt (placed 2 1000 1001) \<noteq> o_updatedAt (placed 2 1000 1001)"
  by code_simp

subsection \<open>Listing\<close>

lemma set_slice: "set (slice xs a b) \<subseteq> set xs"
proof -
  have "set (take n (drop k xs)) \<subseteq> set xs" for n k
    using set_take_subset [of n "drop k xs"] set_drop_subset [of k xs] by blast
  then show ?thesis by (simp add: slice_def Let_def)
qed

lemma paginate_items_subset: "set (pg_items (paginate xs page_text ps)) \<subseteq> set xs"
  by (simp add: paginate_def Let_def set_slice)

lemma set_newest_first: "set (newest_first xs) = set xs"
  by (simp add: newest_first_def)

lemma my_orders_result:
  "fst (my_orders c page_q limit_q od) =
     Inr (paginate
            (newest_first (filter (\<lambda>ord. o_userId ord = Some (userId c)) (load ''orders'' od)))
            (param_or ''1'' page_q) (parseInt (param_or ''10'' limit_q)))"
  by (simp add: my_orders_def split_beta Let_def load_def)

lemma list_orders_result:
  "role c = ''admin'' \<Longrightarrow>
   fst (list_orders c status page_q limit_q od) =
     Inr (paginate
            (newest_first
               (if truthy_str status
                then filter (\<lambda>ord. o_status ord = str status) (load ''orders'' od)
                else load ''orders'' od))
            (param_or ''1'' page_q) (parseInt (param_or ''10'' limit_q)))"
  by (simp add: list_orders_def split_beta Let_def load_def)

text \<open>A page size that is a zero: the products of the index arithmetic are zeros or \<open>NaN\<close>.\<close>

lemma to_number_zero: "to_number 0 = Fin 0"
  by (simp add: to_number_def round_double_def in_range_def)

lemma mul_by_zero: "is_zero z \<Longrightarrow> js_mul p z = NaN \<or> is_zero (js_mul p z)"
  by (auto simp: js_mul_def signed_def is_zero_def is_inf_def is_nan_def)

lemma add_zero: "s = NaN \<or> is_zero s \<Longrightarrow> is_zero z \<Longrightarrow> js_add s z = NaN \<or> is_zero (js_add s z)"
  by (auto simp: js_add_def is_zero_def is_nan_def is_inf_def to_number_zero)

lemma relative_index_zero: "x = NaN \<or> is_zero x \<Longrightarrow> relative_index len x = 0"
  by (auto simp: relative_index_def is_zero_def to_integer_def)

lemma slice_zero_size:
  assumes "is_zero z"
  shows "slice xs (js_mul p z) (js_add (js_mul p z) z) = []"
proof -
  have s: "js_mul p z = NaN \<or> is_zero (js_mul p z)" by (rule mul_by_zero [OF assms])
  have e: "js_add (js_mul p z) z = NaN \<or> is_zero (js_add (js_mul p z) z)"
    by (rule add_zero [OF s assms])
  show ?thesis
    by (simp add: slice_def Let_def relative_index_zero [OF s] relative_index_zero [OF e])
qed

lemma pages_by_zero:
  assumes "is_zero z"
  shows "js_ceil (js_div (Fin (of_nat n)) z) =
           (if n = 0 then NaN else if z = NegZero then NegInfinity else Infinity)"
  using assms
  by (auto simp: js_div_def signed_def is_zero_def is_nan_def is_inf_def)

lemma paginate_zero:
  assumes "is_zero z"
  shows "paginate xs page_text z =
     \<lparr>pg_items = [], pg_total = length xs, pg_page = parseInt page_text, pg_pageSize = z,
      pg_totalPages =
        (if length xs = 0 then NaN else if z = NegZero then NegInfinity else Infinity)\<rparr>"
  by (simp add: paginate_def Let_def slice_zero_size [OF assms] pages_by_zero [OF assms])

lemma parseInt_empty: "parseInt [] = NaN"
  by (simp add: parseInt_def)

lemma parseInt_samples:
  "parseInt ''0'' = Fin 0" "parseInt ''-0'' = NegZero" "parseInt ''1'' = Fin 1"
  by code_simp+

text \<open>
  C2. For a caller whose role is not \<open>admin\<close>, whatever the stored orders and whatever
  the page, limit and status parameters: the unscoped list answers \<open>ForbiddenError\<close>, and
  every order that \<^verbatim>\<open>/my-orders\<close> returns has the caller's user id.
\<close>

theorem my_orders_scoped:
  assumes "role c \<noteq> ''admin''"
  shows "fst (list_orders c status page_q limit_q od) = Inl ForbiddenError \<and>
         (\<exists>env. fst (my_orders c page_q limit_q od) = Inr env \<and>
            (\<forall>ord \<in> set (pg_items env). o_userId ord = Some (userId c)))"
proof -
  let ?mine = "filter (\<lambda>ord. o_userId ord = Some (userId c)) (load ''orders'' od)"
  let ?env = "paginate (newest_first ?mine) (param_or ''1'' page_q)
                (parseInt (param_or ''10'' limit_q))"
  have forbidden: "fst (list_orders c status page_q limit_q od) = Inl ForbiddenError"
    unfolding list_orders_def using assms by simp
  have "set (pg_items ?env) \<subseteq> set ?mine"
    using paginate_items_subset [of "newest_first ?mine"] set_newest_first [of ?mine] by blast
  then have scoped: "\<forall>ord \<in> set (pg_items ?env). o_userId ord = Some (userId c)"
    by auto
  show ?thesis
    using forbidden scoped my_orders_result [of c page_q limit_q od] by blast
qed

theorem my_orders_scoped_witness:
  "role shopper0 \<noteq> ''admin'' \<and>
   fst (list_orders shopper0 None None None orders_disk1) = Inl ForbiddenError \<and>
   map_sum id pg_items (fst (my_orders shopper0 None None orders_disk1)) =
     Inr [order_of 7 30, order_of 7 10] \<and>
   list_all (\<lambda>ord. o_userId ord = Some (userId shopper0)) [order_of 7 30, order_of 7 10]"
proof -
  have h: "role shopper0 \<noteq> ''admin''" by (simp add: shopper0_def)
  have e: "map_sum id pg_items (fst (my_orders shopper0 None None orders_disk1)) =
      Inr [order_of 7 30, order_of 7 10]"
    by code_simp
  from my_orders_scoped [OF h, of None None None orders_disk1]
  obtain env where f: "fst (list_orders shopper0 None None None orders_disk1) = Inl ForbiddenError"
    and r: "fst (my_orders shopper0 None None orders_disk1) = Inr env"
    and a: "\<forall>ord \<in> set (pg_items env). o_userId ord = Some (userId shopper0)"
    by blast
  from e r have "pg_items env = [order_of 7 30, order_of 7 10]" by simp
  with a have "list_all (\<lambda>ord. o_userId ord = Some (userId shopper0)) [order_of 7 30, order_of 7 10]"
    by (simp add: list_all_iff)
  then show ?thesis using h f e by simp
qed

text \<open>
  C5 (as the code has it). The routes have no check on the limit: with a limit text that
  \<^verbatim>\<open>parseInt\<close> reads as a zero (\<^verbatim>\<open>0\<close>, or \<^verbatim>\<open>-0\<close> for the negative zero), the admin
  list, \<^verbatim>\<open>/my-orders\<close> and the product list all answer successfully with an empty page,
  that zero as \<open>pageSize\<close>, and \<open>totalPages = Math.ceil(total / pageSize)\<close>, which is
  \<open>NaN\<close> when there are no records and otherwise \<open>Infinity\<close> for the positive and
  \<open>-Infinity\<close> for the negative zero.
\<close>

theorem limit_zero_no_error:
  assumes "is_zero (parseInt limit)"
  shows "(role c = ''admin'' \<longrightarrow>
           (\<exists>env. fst (list_orders c status page_q (Some limit) od) = Inr env \<and>
              pg_items env = [] \<and> pg_pageSize env = parseInt limit \<and>
              pg_totalPages env =
                (if pg_total env = 0 then NaN
                 else if parseInt limit = NegZero then NegInfinity else Infinity))) \<and>
         (\<exists>env. fst (my_orders c page_q (Some limit) od) = Inr env \<and>
              pg_items env = [] \<and> pg_pageSize env = parseInt limit \<and>
              pg_totalPages env =
                (if pg_total env = 0 then NaN
                 else if parseInt limit = NegZero then NegInfinity else Infinity)) \<and>
         pg_items (fst (list_products category search (Some limit) page_q pd)) = [] \<and>
         pg_pageSize (fst (list_products category search (Some limit) page_q pd)) =
           parseInt limit \<and>
         pg_totalPages (fst (list_products category search (Some limit) page_q pd)) =
           (if pg_total (fst (list_products category search (Some limit) page_q pd)) = 0
            then NaN
            else if parseInt limit = NegZero then NegInfinity else Infinity)"
proof -
  have ne: "truthy_str (Some limit)"
    using assms parseInt_empty by (auto simp: truthy_str_def is_zero_def)
  note z = paginate_zero [OF assms]
  have a: "role c = ''admin'' \<longrightarrow>
           (\<exists>env. fst (list_orders c status page_q (Some limit) od) = Inr env \<and>
              pg_items env = [] \<and> pg_pageSize env = parseInt limit \<and>
              pg_totalPages env =
                (if pg_total env = 0 then NaN
                 else if parseInt limit = NegZero then NegInfinity else Infinity))"
    by (simp add: list_orders_result param_or_def z)
  have b: "\<exists>env. fst (my_orders c page_q (Some limit) od) = Inr env \<and>
              pg_items env = [] \<and> pg_pageSize env = parseInt limit \<and>
              pg_totalPages env =
                (if pg_total env = 0 then NaN
                 else if parseInt limit = NegZero then NegInfinity else Infinity)"
    by (simp add: my_orders_result param_or_def z)
  have p: "pg_items (fst (list_products category search (Some limit) page_q pd)) = [] \<and>
         pg_pageSize (fst (list_products category search (Some limit) page_q pd)) =
           parseInt limit \<and>
         pg_totalPages (fst (list_products category search (Some limit) page_q pd)) =
           (if pg_total (fst (list_products category search (Some limit) page_q pd)) = 0
            then NaN
            else if parseInt limit = NegZero then NegInfinity else Infinity)"
    using ne by (simp add: list_products_def split_beta Let_def str_def z)
  show ?thesis using a b p by blast
qed

theorem limit_zero_no_error_witness:
  "is_zero (parseInt ''0'') \<and> is_zero (parseInt ''-0'') \<and> role admin0 = ''admin'' \<and>
   (\<exists>env. fst (list_orders admin0 None None (Some ''0'') orders_disk1) = Inr env \<and>
      pg_items env = [] \<and> pg_pageSize env = Fin 0 \<and> pg_total env = 3 \<and>
      pg_totalPages env = Infinity) \<and>
   (\<exists>env. fst (list_orders admin0 None None (Some ''-0'') orders_disk1) = Inr env \<and>
      pg_items env = [] \<and> pg_pageSize env = NegZero \<and> pg_total env = 3 \<and>
      pg_totalPages env = NegInfinity)"
proof -
  have h: "is_zero (parseInt ''0'')" "is_zero (parseInt ''-0'')"
    by (simp_all add: parseInt_samples is_zero_def)
  have r: "role admin0 = ''admin''" by (simp add: admin0_def)
  have n: "length (newest_first (load ''orders'' orders_disk1)) = 3" by code_simp
  have t: "pg_total env = 3"
    if "fst (list_orders admin0 None None (Some limit) orders_disk1) = Inr env" for env limit
    using that n by (simp add: list_orders_result r truthy_str_def paginate_def Let_def) auto
  from limit_zero_no_error [OF h(1), of admin0 None None orders_disk1] r
  obtain env where e: "fst (list_orders admin0 None None (Some ''0'') orders_disk1) = Inr env"
    "pg_items env = []" "pg_pageSize env = parseInt ''0''"
    "pg_totalPages env =
       (if pg_total env = 0 then NaN else if parseInt ''0'' = NegZero then NegInfinity else Infinity)"
    by blast
  from limit_zero_no_error [OF h(2), of admin0 None None orders_disk1] r
  obtain env' where e': "fst (list_orders admin0 None None (Some ''-0'') orders_disk1) = Inr env'"
    "pg_items env' = []" "pg_pageSize env' = parseInt ''-0''"
    "pg_totalPages env' =
       (if pg_total env' = 0 then NaN else if parseInt ''-0'' = NegZero then NegInfinity else Infinity)"
    by blast
  have "fst (list_orders admin0 None None (Some ''0'') orders_disk1) = Inr env \<and>
      pg_items env = [] \<and> pg_pageSize env = Fin 0 \<and> pg_total env = 3 \<and>
      pg_totalPages env = Infinity"
    using e t [OF e(1)] by (simp add: parseInt_samples)
  moreover have "fst (list_orders admin0 None None (Some ''-0'') orders_disk1) = Inr env' \<and>
      pg_items env' = [] \<and> pg_pageSize env' = NegZero \<and> pg_total env' = 3 \<and>
      pg_totalPages env' = NegInfinity"
    using e' t [OF e'(1)] by (simp add: parseInt_samples)
  ultimately show ?thesis using h r by blast
qed

text \<open>
  C5 as stated fails: the admin list with \<^verbatim>\<open>limit=0\<close> over three stored orders is a
  successful answer, with no items and \<open>totalPages = Infinity\<close>; so is the product list.
\<close>

theorem limit_zero_answers:
  "fst (list_orders admin0 None (Some ''1'') (Some ''0'') orders_disk1) =
     Inr \<lparr>pg_items = [], pg_total = 3, pg_page = Fin 1, pg_pageSize = Fin 0,
          pg_totalPages = Infinity\<rparr> \<and>
   fst (list_products None None (Some ''0'') None catalog_disk) =
     \<lparr>pg_items = [], pg_total = 1, pg_page = Fin 1, pg_pageSize = Fin 0,
      pg_totalPages = Infinity\<rparr>"
proof -
  have r: "role admin0 = ''admin''" by (simp add: admin0_def)
  have z: "is_zero (Fin 0)" by (simp add: is_zero_def)
  have n: "length (newest_first (load ''orders'' orders_disk1)) = 3"
    "length (load ''products'' catalog_disk) = 1"
    by code_simp+
  have o: "fst (list_orders admin0 None (Some ''1'') (Some ''0'') orders_disk1) =
     Inr \<lparr>pg_items = [], pg_total = 3, pg_page = Fin 1, pg_pageSize = Fin 0,
          pg_totalPages = Infinity\<rparr>"
    by (simp add: list_orders_result r truthy_str_def param_or_def parseInt_samples
          paginate_zero [OF z] n)
  have p: "fst (list_products None None (Some ''0'') None catalog_disk) =
     \<lparr>pg_items = [], pg_total = 1, pg_page = Fin 1, pg_pageSize = Fin 0,
      pg_totalPages = Infinity\<rparr>"
    using n(2)
    by (auto simp: list_products_def split_beta Let_def truthy_str_def str_def param_or_def
          parseInt_samples paginate_zero [OF z] load_def)
  show ?thesis using o p by simp
qed

subsection \<open>Statistics\<close>



subsection \<open>Products\<close>

lemma apply_update_price:
  "p_price (apply_update body now p) =
     (if truthy_num (pb_price body) then num (pb_price body) else p_price p)"
  by (simp add: apply_update_def Let_def split: option.splits)

lemma apply_update_updatedAt: "p_updatedAt (apply_update body now p) = now"
  by (simp add: apply_update_def Let_def split: option.splits)

lemma map_update_self: "(map f xs)[j := f (xs ! j)] = map f xs"
  by (metis list_update_id map_update)

text \<open>The answer and the disk of an update, branch by branch.\<close>

lemma update_product_result:
  "fst (update_product c id_text body now pd) =
     (if role c \<noteq> ''admin'' then Inl ForbiddenError
      else case findIndex (has_id (parseInt id_text)) (load ''products'' pd) of
             None \<Rightarrow> Inl NotFoundError
           | Some i \<Rightarrow>
               if truthy_num (pb_price body) \<and> le_zero (pb_price body)
               then Inl (ValidationError ''Price must be greater than 0'')
               else if name_conflict (load ''products'' pd) (parseInt id_text) i body
               then Inl DuplicateNameError
               else Inr (apply_update body now (load ''products'' pd ! i)))"
  by (auto simp: update_product_def load_def split_beta Let_def split: option.splits)

lemma update_product_disk:
  "snd (update_product c id_text body now pd) =
     (if role c \<noteq> ''admin'' then pd
      else case findIndex (has_id (parseInt id_text)) (load ''products'' pd) of
             None \<Rightarrow> snd (readData ''products'' pd)
           | Some i \<Rightarrow>
               if (truthy_num (pb_price body) \<and> le_zero (pb_price body)) \<or>
                  name_conflict (load ''products'' pd) (parseInt id_text) i body
               then snd (readData ''products'' pd)
               else snd (writeData (\<lambda>r. r) ''products''
                      ((load ''products'' pd)[i := apply_update body now (load ''products'' pd ! i)])
                      (snd (readData ''products'' pd))))"
  by (auto simp: update_product_def load_def split_beta Let_def split: option.splits)

text \<open>
  The create path keeps the names unique: every creation request leaves a collection in
  which no two products share a name up to case, when it found one.
\<close>

lemma names_unique_append:
  "names_unique ps \<Longrightarrow>
   find (\<lambda>p. toLowerCase (p_name p) = toLowerCase (p_name q)) ps = None \<Longrightarrow>
   names_unique (ps @ [q])"
  by (auto simp: names_unique_def find_None_iff)

lemma create_product_preserves:
  assumes "names_unique (load ''products'' pd)"
  shows "names_unique (load ''products'' (snd (create_product c body n1 n2 n3 pd)))"
proof -
  let ?ps = "fst (readData ''products'' pd)"
  let ?pd1 = "snd (readData ''products'' pd)"
  have u1: "names_unique (load ''products'' ?pd1)" using assms by (simp add: load_after_read)
  have u: "names_unique ?ps" using assms by (simp add: load_def)
  show ?thesis
  proof (cases "find (\<lambda>p. toLowerCase (p_name p) = toLowerCase (str (pb_name body))) ?ps")
    case None
    then show ?thesis
      using assms u1 names_unique_append [OF u, where q =
          "\<lparr>p_id = n1, p_name = str (pb_name body), p_price = num (pb_price body),
            p_category = str (pb_category body),
            p_description = str (pb_description body),
            p_image = (if truthy_str (pb_image body) then str (pb_image body)
                       else ''/api/placeholder/300/200''),
            p_featured = (case pb_featured body of None \<Rightarrow> False | Some f \<Rightarrow> f),
            p_createdAt = n2,
            p_updatedAt = n3\<rparr>"]
      by (simp add: create_product_def split_beta Let_def load_after_writeData)
  next
    case (Some a)
    then show ?thesis
      using assms u1 by (simp add: create_product_def split_beta Let_def)
  qed
qed

text \<open>
  C7. The update path does not keep the invariant. Two products created in the same
  millisecond share the id \<open>5\<close> (names \<open>Axe\<close> and \<open>Saw\<close>, a collection without
  duplicate names). The update of id \<open>5\<close> to the name \<open>SAW\<close> is not rejected with
  \<open>DuplicateNameError\<close>: the search for the name skips the product \<open>Saw\<close>, whose id is
  also \<open>5\<close>, the update succeeds, and the stored collection then holds \<open>SAW\<close> and
  \<open>Saw\<close>.
\<close>

theorem rename_breaks_unique_names:
  "map p_name (load ''products'' two_tools) = [''Axe'', ''Saw''] \<and>
   map p_id (load ''products'' two_tools) = [5, 5] \<and>
   names_unique (load ''products'' two_tools) \<and>
   map_sum id p_name (fst (update_product admin0 ''5'' (rename_to ''SAW'') 6 two_tools)) =
     Inr ''SAW'' \<and>
   map p_name (load ''products''
     (snd (update_product admin0 ''5'' (rename_to ''SAW'') 6 two_tools))) = [''SAW'', ''Saw''] \<and>
   \<not> names_unique (load ''products''
     (snd (update_product admin0 ''5'' (rename_to ''SAW'') 6 two_tools)))"
  by code_simp

text \<open>The create path on the same store rejects the name.\<close>

lemma create_rejects_held_name:
  "fst (create_product admin0 (new_product ''SAW'') 7 7 7 two_tools) = Inl DuplicateNameError"
  by code_simp

text \<open>
  C10. An update request whose price is the number \<open>0\<close> is never answered with a
  validation error, and the prices in the stored collection are what they were.
  When the caller is an admin, the product exists and the name check passes, the update
  succeeds: the answered product has its former price and \<open>updatedAt\<close> set to the
  clock reading, and it replaces the former record when the disk takes the write.
\<close>

theorem zero_price_update:
  assumes "pb_price body = Some 0"
  shows "(\<forall>m. fst (update_product c id_text body now pd) \<noteq> Inl (ValidationError m)) \<and>
         map p_price (load ''products'' (snd (update_product c id_text body now pd))) =
           map p_price (load ''products'' pd) \<and>
         (role c = ''admin'' \<and>
          findIndex (has_id (parseInt id_text)) (load ''products'' pd) = Some i \<and>
          \<not> name_conflict (load ''products'' pd) (parseInt id_text) i body
          \<longrightarrow> (\<exists>u. fst (update_product c id_text body now pd) = Inr u \<and>
                 p_price u = p_price (load ''products'' pd ! i) \<and>
                 p_updatedAt u = now \<and>
                 (writable pd \<longrightarrow>
                    load ''products'' (snd (update_product c id_text body now pd)) =
                      (load ''products'' pd)[i := u])))"
proof -
  let ?ps = "load ''products'' pd"
  have falsy: "\<not> truthy_num (pb_price body)" using assms by (simp add: truthy_num_def)
  have keep: "p_price (apply_update body now p) = p_price p" for p
    using falsy by (simp add: apply_update_price)
  have no_error: "\<forall>m. fst (update_product c id_text body now pd) \<noteq> Inl (ValidationError m)"
    unfolding update_product_result using falsy by (simp split: option.splits)
  have prices: "map p_price (?ps[j := apply_update body now (?ps ! j)]) = map p_price ?ps" for j
    by (simp add: map_update keep map_update_self)
  have same: "map p_price (load ''products'' (snd (update_product c id_text body now pd))) =
           map p_price ?ps"
    unfolding update_product_disk
    by (simp add: load_after_read load_after_writeData prices split: option.splits)
  have succeeds: "\<exists>u. fst (update_product c id_text body now pd) = Inr u \<and>
                 p_price u = p_price (?ps ! i) \<and> p_updatedAt u = now \<and>
                 (writable pd \<longrightarrow>
                    load ''products'' (snd (update_product c id_text body now pd)) = ?ps[i := u])"
    if "role c = ''admin''"
      and "findIndex (has_id (parseInt id_text)) ?ps = Some i"
      and "\<not> name_conflict ?ps (parseInt id_text) i body"
  proof -
    have r: "fst (update_product c id_text body now pd) = Inr (apply_update body now (?ps ! i))"
      unfolding update_product_result using that falsy by simp
    have d: "writable pd \<longrightarrow>
        load ''products'' (snd (update_product c id_text body now pd)) =
          ?ps[i := apply_update body now (?ps ! i)]"
      unfolding update_product_disk using that falsy
      by (simp add: load_after_writeData writable_after_read)
    show ?thesis using r d keep apply_update_updatedAt by blast
  qed
  show ?thesis using no_error same succeeds by blast
qed

theorem zero_price_update_witness:
  "pb_price zero_price = Some 0 \<and>
   fst (update_product admin0 ''1'' zero_price 500 catalog_disk) =
     Inr (widget\<lparr>p_updatedAt := 500\<rparr>) \<and>
   fst (update_product admin0 ''1'' zero_price 500 catalog_disk) \<noteq>
     Inl (ValidationError ''Price must be greater than 0'') \<and>
   map p_price (load ''products'' (snd (update_product admin0 ''1'' zero_price 500 catalog_disk))) =
     [2]"
proof -
  have h: "pb_price zero_price = Some 0" by (simp add: zero_price_def)
  have r: "fst (update_product admin0 ''1'' zero_price 500 catalog_disk) =
     Inr (widget\<lparr>p_updatedAt := 500\<rparr>)"
    by code_simp
  have l: "map p_price (load ''products'' catalog_disk) = [2]" by code_simp
  show ?thesis
    using zero_price_update [OF h, of admin0 "''1''" 500 catalog_disk 0] h r l by simp
qed


end
